theory Spec2Isabelle
  imports Complex_Main "HOL-Library.Word"
begin

section \<open>Strings, numbers and paths as server.js uses them\<close>

text \<open>
  A JavaScript string is a sequence of UTF-16 code units. The model writes it as a
  \<open>string\<close>, one \<open>char\<close> per code unit, which covers the code units below 256
  (ASCII and Latin-1, enough for every literal of server.js). The regular expressions
  of the source carry no \<open>u\<close> flag, so they too work code unit by code unit.
\<close>

type_synonym bytes = "8 word list"

subsection \<open>Template literals: \<open>${Date.now()}\<close>\<close>

text \<open>
  \<open>Date.now()\<close> is an integer number of milliseconds (at most 8.64e15 in absolute
  value), so its conversion to a string inside a template literal is its decimal
  numeral, with a leading minus sign below zero.
\<close>

definition digit_char :: "nat \<Rightarrow> char" where
  "digit_char d = ''0123456789'' ! d"

fun decimal :: "nat \<Rightarrow> string" where
  "decimal n = (if n < 10 then [digit_char n] else decimal (n div 10) @ [digit_char (n mod 10)])"

declare decimal.simps [simp del]

definition Number_toString :: "int \<Rightarrow> string" where
  "Number_toString i = (if i < 0 then CHR ''-'' # decimal (nat (- i)) else decimal (nat i))"

text \<open>The template literals of lines 95 and 125: \<open>`tts-${Date.now()}.mp3`\<close> and
  \<open>`s2s-${Date.now()}.mp3`\<close>, with the prefix and the extension as parameters.\<close>

definition generated_filename :: "string \<Rightarrow> int \<Rightarrow> string \<Rightarrow> string" where
  "generated_filename categoryPrefix now extension =
     categoryPrefix @ ''-'' @ Number_toString now @ ''.'' @ extension"

subsection \<open>\<open>path.join\<close> (POSIX)\<close>

text \<open>
  The server is taken to run on a POSIX system, where \<open>path.join\<close> is
  \<open>path.posix.join\<close>. It joins its non-empty arguments with a slash and normalises
  the result: empty and \<open>.\<close> segments disappear, a \<open>..\<close> segment removes the segment
  before it (or is kept in front of a relative path), a trailing slash is kept.
\<close>

fun split_sep :: "string \<Rightarrow> string list" where
  "split_sep [] = [[]]"
| "split_sep (c # cs) =
     (if c = CHR ''/'' then [] # split_sep cs
      else (case split_sep cs of [] \<Rightarrow> [[c]] | s # ss \<Rightarrow> (c # s) # ss))"

fun join_sep :: "string list \<Rightarrow> string" where
  "join_sep [] = []"
| "join_sep [s] = s"
| "join_sep (s # t # ss) = s @ ''/'' @ join_sep (t # ss)"

definition norm_step :: "bool \<Rightarrow> string list \<Rightarrow> string \<Rightarrow> string list" where
  "norm_step allowAboveRoot res seg =
     (if seg = [] \<or> seg = ''.'' then res
      else if seg = ''..'' then
        (if res \<noteq> [] \<and> last res \<noteq> ''..'' then butlast res
         else if allowAboveRoot then res @ [''..''] else res)
      else res @ [seg])"

definition normalizeString :: "bool \<Rightarrow> string list \<Rightarrow> string list" where
  "normalizeString allowAboveRoot segs = foldl (norm_step allowAboveRoot) [] segs"

definition isAbsolute :: "string \<Rightarrow> bool" where
  "isAbsolute p = (case p of [] \<Rightarrow> False | c # _ \<Rightarrow> c = CHR ''/'')"

definition posix_normalize :: "string \<Rightarrow> string" where
  "posix_normalize p =
     (if p = [] then ''.''
      else let trailingSeparator = (last p = CHR ''/'');
               q = join_sep (normalizeString (\<not> isAbsolute p) (split_sep p))
           in if q = [] then (if isAbsolute p then ''/'' else if trailingSeparator then ''./'' else ''.'')
              else (if isAbsolute p then ''/'' else []) @ q @ (if trailingSeparator then ''/'' else []))"

definition path_join :: "string \<Rightarrow> string \<Rightarrow> string" where
  "path_join a b =
     (let joined = (if a = [] then b else if b = [] then a else a @ ''/'' @ b)
      in if joined = [] then ''.'' else posix_normalize joined)"

subsection \<open>The project-name regular expression\<close>

text \<open>\<open>/[^a-z0-9-_]/gi\<close>: the class holds the letters (both cases, by the \<open>i\<close>
  flag), the digits, the hyphen and the underscore; \<open>replace\<close> with the \<open>g\<close> flag
  rewrites every code unit outside it to an underscore.\<close>

definition in_class :: "char \<Rightarrow> bool" where
  "in_class c =
     (let n = (of_char c :: nat)
      in (97 \<le> n \<and> n \<le> 122) \<or> (65 \<le> n \<and> n \<le> 90) \<or> (48 \<le> n \<and> n \<le> 57)
         \<or> c = CHR ''-'' \<or> c = CHR ''_'')"

definition sanitize :: "string \<Rightarrow> string" where
  "sanitize projectName = map (\<lambda>c. if in_class c then c else CHR ''_'') projectName"


section \<open>The file system\<close>

text \<open>
  The store is a tree of directories and files addressed by normalised path. A path can
  also be refused by the operating system (no permission, a locked file): \<open>denied\<close>
  marks the paths at which creating, writing and removing fail.
\<close>

datatype node = Dir | File bytes

datatype io_error = ENOENT | EEXIST | ENOTDIR | EISDIR | EACCES

record filesystem =
  nodes :: "string \<Rightarrow> node option"
  denied :: "string \<Rightarrow> bool"

definition lookup_node :: "filesystem \<Rightarrow> string \<Rightarrow> node option" where
  "lookup_node fsys p = (if p = ''/'' then Some Dir else nodes fsys p)"

definition existsSync :: "filesystem \<Rightarrow> string \<Rightarrow> bool" where
  "existsSync fsys p = (lookup_node fsys p \<noteq> None)"

definition readFile :: "filesystem \<Rightarrow> string \<Rightarrow> bytes option" where
  "readFile fsys p = (case lookup_node fsys p of Some (File b) \<Rightarrow> Some b | _ \<Rightarrow> None)"

definition path_segments :: "string \<Rightarrow> string list" where
  "path_segments p = normalizeString (\<not> isAbsolute p) (split_sep p)"

definition path_root :: "string \<Rightarrow> string" where
  "path_root p = (if isAbsolute p then ''/'' else [])"

definition parent_dir :: "string \<Rightarrow> string" where
  "parent_dir p =
     (if length (path_segments p) \<le> 1 then (if isAbsolute p then ''/'' else ''.'')
      else path_root p @ join_sep (butlast (path_segments p)))"

fun proper_prefixes :: "'a list \<Rightarrow> 'a list list" where
  "proper_prefixes [] = []"
| "proper_prefixes [x] = []"
| "proper_prefixes (x # y # ys) = [x] # map ((#) x) (proper_prefixes (y # ys))"

text \<open>The directories above a path, outermost first (the root itself left out).\<close>

definition ancestors :: "string \<Rightarrow> string list" where
  "ancestors p = map (\<lambda>xs. path_root p @ join_sep xs) (proper_prefixes (path_segments p))"

text \<open>\<open>fs.writeFile(path, data)\<close>: creates the file or replaces its contents; the
  directory that holds it must exist.\<close>

definition writeFile :: "filesystem \<Rightarrow> string \<Rightarrow> bytes \<Rightarrow> io_error + filesystem" where
  "writeFile fsys p b =
     (if denied fsys p then Inl EACCES
      else case lookup_node fsys p of
        Some Dir \<Rightarrow> Inl EISDIR
      | _ \<Rightarrow>
        (case lookup_node fsys (parent_dir p) of
           Some Dir \<Rightarrow> Inr (fsys\<lparr>nodes := (nodes fsys)(p \<mapsto> File b)\<rparr>)
         | Some (File _) \<Rightarrow> Inl ENOTDIR
         | None \<Rightarrow> Inl ENOENT))"

text \<open>\<open>fs.unlink(path)\<close>: removes a file.\<close>

definition unlink :: "filesystem \<Rightarrow> string \<Rightarrow> io_error + filesystem" where
  "unlink fsys p =
     (case lookup_node fsys p of
        None \<Rightarrow> Inl ENOENT
      | Some Dir \<Rightarrow> Inl EISDIR
      | Some (File _) \<Rightarrow>
          if denied fsys p then Inl EACCES
          else Inr (fsys\<lparr>nodes := (nodes fsys)(p := None)\<rparr>))"

text \<open>\<open>mkdir(path, { recursive: true })\<close>: walks from the outermost directory to the
  path, creating what is missing; a directory that is already there is passed over, a
  file in the way is an error. What was created before an error stays.\<close>

fun mkdir_chain :: "filesystem \<Rightarrow> string list \<Rightarrow> io_error option \<times> filesystem" where
  "mkdir_chain fsys [] = (None, fsys)"
| "mkdir_chain fsys (p # ps) =
     (case lookup_node fsys p of
        Some Dir \<Rightarrow> mkdir_chain fsys ps
      | Some (File _) \<Rightarrow> (Some (if ps = [] then EEXIST else ENOTDIR), fsys)
      | None \<Rightarrow>
          if denied fsys p then (Some EACCES, fsys)
          else mkdir_chain (fsys\<lparr>nodes := (nodes fsys)(p \<mapsto> Dir)\<rparr>) ps)"

definition mkdir_recursive :: "filesystem \<Rightarrow> string \<Rightarrow> io_error option \<times> filesystem" where
  "mkdir_recursive fsys p = mkdir_chain fsys (ancestors p @ [p])"

section \<open>Values, errors, console, responses\<close>

datatype json =
    JNull
  | JBool bool
  | JNum real
  | JStr string
  | JArr "json list"
  | JObj "(string \<times> json) list"

text \<open>\<open>!x\<close> for a field of a parsed body: a field that is absent is \<open>undefined\<close>.\<close>

fun truthy :: "json option \<Rightarrow> bool" where
  "truthy None = False"
| "truthy (Some JNull) = False"
| "truthy (Some (JBool b)) = b"
| "truthy (Some (JNum x)) = (x \<noteq> 0)"
| "truthy (Some (JStr s)) = (s \<noteq> [])"
| "truthy (Some (JArr _)) = True"
| "truthy (Some (JObj _)) = True"

text \<open>What a \<open>catch\<close> can receive: an error of the provider's client or of the HTTP
  call (with the message it carries, if any), a system error of a file operation, or a
  \<open>TypeError\<close> of the language.\<close>

datatype thrown =
    UpstreamError "string option"
  | IOError io_error string string
  | TypeError string

fun errno_name :: "io_error \<Rightarrow> string" where
  "errno_name ENOENT = ''ENOENT''"
| "errno_name EEXIST = ''EEXIST''"
| "errno_name ENOTDIR = ''ENOTDIR''"
| "errno_name EISDIR = ''EISDIR''"
| "errno_name EACCES = ''EACCES''"

fun errno_text :: "io_error \<Rightarrow> string" where
  "errno_text ENOENT = ''no such file or directory''"
| "errno_text EEXIST = ''file already exists''"
| "errno_text ENOTDIR = ''not a directory''"
| "errno_text EISDIR = ''illegal operation on a directory''"
| "errno_text EACCES = ''permission denied''"

text \<open>\<open>err?.message\<close>. A system error carries its code, the system call and the path, and
  its message is Node's: \<open>ENOENT: no such file or directory, open '/srv/x'\<close>.\<close>

fun error_message :: "thrown \<Rightarrow> string option" where
  "error_message (UpstreamError m) = m"
| "error_message (IOError e syscall p) =
     Some (errno_name e @ '': '' @ errno_text e @ '', '' @ syscall @ '' '' @ [CHR 0x27] @ p @ [CHR 0x27])"
| "error_message (TypeError m) = Some m"

datatype log_arg = LString string | LThrown thrown

datatype log_entry = Console_log json | Console_error string log_arg

record world =
  fs :: filesystem
  console :: "log_entry list"

text \<open>\<open>console.error(tag, err?.message || err)\<close>\<close>

definition console_error :: "string \<Rightarrow> thrown \<Rightarrow> world \<Rightarrow> world" where
  "console_error tag err w =
     w\<lparr>console := console w @
        [Console_error tag
           (case error_message err of
              Some m \<Rightarrow> if m \<noteq> [] then LString m else LThrown err
            | None \<Rightarrow> LThrown err)]\<rparr>"

definition console_log :: "json \<Rightarrow> world \<Rightarrow> world" where
  "console_log v w = w\<lparr>console := console w @ [Console_log v]\<rparr>"

record response =
  status :: nat
  body :: "(string \<times> json) list"

text \<open>\<open>res.status(code).json({ error, details })\<close>: a key whose value is
  \<open>undefined\<close> is left out of the JSON text.\<close>

definition error_response :: "nat \<Rightarrow> string \<Rightarrow> response" where
  "error_response code msg = \<lparr>status = code, body = [(''error'', JStr msg)]\<rparr>"

definition error_details_response :: "nat \<Rightarrow> string \<Rightarrow> string option \<Rightarrow> response" where
  "error_details_response code msg details =
     \<lparr>status = code,
      body = (''error'', JStr msg) #
             (case details of None \<Rightarrow> [] | Some d \<Rightarrow> [(''details'', JStr d)])\<rparr>"

definition audio_response :: "string \<Rightarrow> response" where
  "audio_response publicPath =
     \<lparr>status = 200, body = [(''ok'', JBool True), (''audioUrl'', JStr publicPath)]\<rparr>"

definition message_response :: "string \<Rightarrow> response" where
  "message_response msg = \<lparr>status = 200, body = [(''message'', JStr msg)]\<rparr>"


section \<open>The server\<close>

subsection \<open>Configuration and start-up\<close>

text \<open>\<open>dirname\<close> is the module's \<open>__dirname\<close>; the two keys are the environment
  variables of the same names (absent when not set). \<open>ELEVENLABS_API_KEY\<close> is the
  variable the provider's SDK reads by itself when it is given no key.\<close>

record config =
  dirname :: string
  ELEVEN_API_KEY :: "string option"
  XI_API_KEY :: "string option"
  ELEVENLABS_API_KEY :: "string option"

definition PUBLIC_DIR :: "config \<Rightarrow> string" where
  "PUBLIC_DIR cfg = path_join (dirname cfg) ''public''"

definition AUDIOS_DIR :: "config \<Rightarrow> string" where
  "AUDIOS_DIR cfg = path_join (PUBLIC_DIR cfg) ''audios''"

definition UPLOADS_DIR :: "config \<Rightarrow> string" where
  "UPLOADS_DIR cfg = path_join (dirname cfg) ''uploads''"

text \<open>\<open>const ELEVEN_KEY = apiKey || process.env.XI_API_KEY\<close>: an empty string is
  falsy.\<close>

definition ELEVEN_KEY :: "config \<Rightarrow> string option" where
  "ELEVEN_KEY cfg =
     (case ELEVEN_API_KEY cfg of
        Some k \<Rightarrow> if k \<noteq> [] then Some k else XI_API_KEY cfg
      | None \<Rightarrow> XI_API_KEY cfg)"

definition key_missing :: "string option \<Rightarrow> bool" where
  "key_missing k = (case k of None \<Rightarrow> True | Some s \<Rightarrow> s = [])"

text \<open>Lines 29 to 31: \<open>for (const d of [...]) if (!fsSync.existsSync(d))
  fsSync.mkdirSync(d, { recursive: true })\<close>. An error of \<open>mkdirSync\<close> is thrown at the
  top level of the module.\<close>

fun ensureDirectories :: "filesystem \<Rightarrow> string list \<Rightarrow> thrown + filesystem" where
  "ensureDirectories fsys [] = Inr fsys"
| "ensureDirectories fsys (d # ds) =
     (if existsSync fsys d then ensureDirectories fsys ds
      else case mkdir_recursive fsys d of
        (Some e, _) \<Rightarrow> Inl (IOError e ''mkdir'' d)
      | (None, fsys') \<Rightarrow> ensureDirectories fsys' ds)"

text \<open>
  \<open>new ElevenLabsClient({ apiKey })\<close>. The SDK's constructor takes the key it is given
  or, when that is \<open>undefined\<close>, the environment's \<open>ELEVENLABS_API_KEY\<close>; with neither
  it throws. An empty string is a key to it.
\<close>

datatype client = ElevenLabsClient string

definition Please_pass_in_your_key :: string where
  "Please_pass_in_your_key =
     ''Please pass in your ElevenLabs API Key or export ELEVENLABS_API_KEY in your environment.''"

definition new_ElevenLabsClient :: "config \<Rightarrow> string option \<Rightarrow> thrown + client" where
  "new_ElevenLabsClient cfg apiKey =
     (case (case apiKey of Some k \<Rightarrow> Some k | None \<Rightarrow> ELEVENLABS_API_KEY cfg) of
        None \<Rightarrow> Inl (UpstreamError (Some Please_pass_in_your_key))
      | Some k \<Rightarrow> Inr (ElevenLabsClient k))"

text \<open>The module's top level: the directories (lines 29 to 31), then lines 44 to 46,
  \<open>let elevenClient = null; if (ELEVEN_KEY) elevenClient = new ElevenLabsClient({ apiKey:
  apiKey })\<close>, which passes \<open>ELEVEN_API_KEY\<close> whichever variable made \<open>ELEVEN_KEY\<close>
  truthy. An error of either ends the process before it serves a request.\<close>

definition startup :: "config \<Rightarrow> filesystem \<Rightarrow> thrown + filesystem \<times> client option" where
  "startup cfg fsys =
     (case ensureDirectories fsys [PUBLIC_DIR cfg, AUDIOS_DIR cfg, UPLOADS_DIR cfg] of
        Inl err \<Rightarrow> Inl err
      | Inr fsys' \<Rightarrow>
          if key_missing (ELEVEN_KEY cfg) then Inr (fsys', None)
          else (case new_ElevenLabsClient cfg (ELEVEN_API_KEY cfg) of
                  Inl err \<Rightarrow> Inl err
                | Inr elevenClient \<Rightarrow> Inr (fsys', Some elevenClient)))"

subsection \<open>Saving an artifact\<close>

text \<open>\<open>saveBufferToPublic(buffer, filename)\<close>, lines 49 to 53. Both callers pass the
  file name, so its default \<open>output.mp3\<close> is never used.\<close>

definition saveBufferToPublic :: "config \<Rightarrow> bytes \<Rightarrow> string \<Rightarrow> world \<Rightarrow> thrown + string \<times> world" where
  "saveBufferToPublic cfg buffer filename w =
     (let outPath = path_join (AUDIOS_DIR cfg) filename
      in case writeFile (fs w) outPath buffer of
           Inl e \<Rightarrow> Inl (IOError e ''open'' outPath)
         | Inr fsys' \<Rightarrow> Inr (path_join ''audios'' filename, w\<lparr>fs := fsys'\<rparr>))"

text \<open>The store's \<open>writeArtifact\<close> as both routes perform it: the file name from the
  prefix, \<open>Date.now()\<close> and the extension, then \<open>saveBufferToPublic\<close>.\<close>

definition writeArtifact :: "config \<Rightarrow> string \<Rightarrow> string \<Rightarrow> int \<Rightarrow> bytes \<Rightarrow> world \<Rightarrow> thrown + string \<times> world" where
  "writeArtifact cfg categoryPrefix extension now buffer w =
     saveBufferToPublic cfg buffer (generated_filename categoryPrefix now extension) w"

text \<open>A run of calls, one after the other, each with the time it read and its bytes;
  the references returned, in call order, and the store at the end.\<close>

fun writeArtifacts :: "config \<Rightarrow> string \<Rightarrow> string \<Rightarrow> (int \<times> bytes) list \<Rightarrow> world \<Rightarrow> thrown + string list \<times> world" where
  "writeArtifacts cfg categoryPrefix extension [] w = Inr ([], w)"
| "writeArtifacts cfg categoryPrefix extension ((now, buffer) # calls) w =
     (case writeArtifact cfg categoryPrefix extension now buffer w of
        Inl err \<Rightarrow> Inl err
      | Inr (ref, w') \<Rightarrow>
          (case writeArtifacts cfg categoryPrefix extension calls w' of
             Inl err \<Rightarrow> Inl err
           | Inr (refs, w'') \<Rightarrow> Inr (ref # refs, w'')))"

subsection \<open>The provider\<close>

text \<open>
  The voice provider is outside the repository. Its answers are parameters of the
  model: each call either throws or returns. \<open>generate\<close> stands for lines 70 to 88
  (shaping the options from the body and calling \<open>client.generate\<close>), \<open>sts_post\<close> for
  lines 113 to 124 (the form, the URL and \<open>axios.post\<close>, which reads the upload); an
  exception anywhere in those lines reaches the same \<open>catch\<close>.
\<close>

text \<open>A chunk of the stream carries bytes (its \<open>payload\<close>), as a \<open>Buffer\<close> or as
  another byte array.\<close>

datatype chunk = BufferChunk (payload: bytes) | ArrayChunk (payload: bytes)

text \<open>The stream \<open>client.generate\<close> returns: finite, read once; it ends, yields a
  chunk, or raises.\<close>

datatype gen = Done | Yield chunk gen | Raise thrown

record provider =
  voices_getAll :: "client \<Rightarrow> thrown + json"
  generate :: "client \<Rightarrow> (string \<Rightarrow> json option) \<Rightarrow> thrown + gen"
  sts_post :: "string \<Rightarrow> json \<Rightarrow> node option \<Rightarrow> thrown + bytes"

text \<open>\<open>ch instanceof Buffer ? ch : Buffer.from(ch)\<close>\<close>

fun toBuffer :: "chunk \<Rightarrow> bytes" where
  "toBuffer (BufferChunk b) = b"
| "toBuffer (ArrayChunk b) = b"

text \<open>\<open>for await (const ch of gen) chunks.push(...)\<close>\<close>

fun drain :: "gen \<Rightarrow> bytes list \<Rightarrow> thrown + bytes list" where
  "drain Done chunks = Inr chunks"
| "drain (Yield ch g) chunks = drain g (chunks @ [toBuffer ch])"
| "drain (Raise err) chunks = Inl err"

subsection \<open>POST /api/generateAudio\<close>

text \<open>
  A handler takes the configuration, the provider, the value \<open>Date.now()\<close> returns
  when the handler reads the clock, the request and the world (file system and
  console), and returns the response with the world after it. \<open>reqBody\<close> is
  \<open>req.body\<close>, the object the body parsers produced: a map from field names to values,
  with no entry for a field the body does not have. When \<open>new ElevenLabsClient(...)\<close>
  returns, it returns an object, written \<open>Some\<close> of the client; \<open>null\<close> would be
  \<open>None\<close>. When it throws, the \<open>catch\<close> of the route answers.
\<close>

definition Texto_obrigatorio :: string where
  "Texto_obrigatorio = ''Texto '' @ [CHR 0xE9] @ '' obrigat'' @ [CHR 0xF3] @ ''rio''"

definition key_nao_configurada :: string where
  "key_nao_configurada = ''ElevenLabs API key n'' @ [CHR 0xE3] @ ''o configurada''"

definition Erro_ao_gerar_audio :: string where
  "Erro_ao_gerar_audio = ''Erro ao gerar '' @ [CHR 0xE1] @ ''udio''"

definition generateAudio_catch :: "thrown \<Rightarrow> world \<Rightarrow> response \<times> world" where
  "generateAudio_catch err w =
     (error_details_response 500 Erro_ao_gerar_audio (error_message err),
      console_error ''generateAudio error'' err w)"

definition generateAudio :: "config \<Rightarrow> provider \<Rightarrow> int \<Rightarrow> (string \<Rightarrow> json option) \<Rightarrow> world \<Rightarrow> response \<times> world" where
  "generateAudio cfg up now reqBody w =
     (if \<not> truthy (reqBody ''text'') then (error_response 400 Texto_obrigatorio, w)
      else
        case new_ElevenLabsClient cfg (ELEVEN_API_KEY cfg) of
          Inl err \<Rightarrow> generateAudio_catch err w
        | Inr c \<Rightarrow>
            let client = Some c
            in case voices_getAll up (the client) of
                 Inl err \<Rightarrow> generateAudio_catch err w
               | Inr voices \<Rightarrow>
                   let w1 = console_log voices w
                   in if client = None then (error_response 500 key_nao_configurada, w1)
                      else case generate up (the client) reqBody of
                        Inl err \<Rightarrow> generateAudio_catch err w1
                      | Inr g \<Rightarrow>
                          (case drain g [] of
                             Inl err \<Rightarrow> generateAudio_catch err w1
                           | Inr chunks \<Rightarrow>
                               (case saveBufferToPublic cfg (concat chunks)
                                       (generated_filename ''tts'' now ''mp3'') w1 of
                                  Inl err \<Rightarrow> generateAudio_catch err w1
                                | Inr (publicPath, w2) \<Rightarrow> (audio_response publicPath, w2))))"

subsection \<open>POST /api/speech-to-speech\<close>

definition Arquivo_obrigatorio :: string where
  "Arquivo_obrigatorio =
     ''Arquivo de '' @ [CHR 0xE1] @ ''udio '' @ [CHR 0xE9] @ '' obrigat'' @ [CHR 0xF3] @ ''rio (field: audio)''"

definition voice_obrigatorio :: string where
  "voice_obrigatorio = ''voice '' @ [CHR 0xE9] @ '' obrigat'' @ [CHR 0xF3] @ ''rio''"

definition speech_to_speech_catch :: "thrown \<Rightarrow> world \<Rightarrow> response \<times> world" where
  "speech_to_speech_catch err w =
     (error_details_response 500 ''Erro no speech-to-speech'' (error_message err),
      console_error ''speech-to-speech error'' err w)"

text \<open>Line 129: \<open>try { await fs.unlink(inputPath); } catch (e) {}\<close>\<close>

definition unlink_quietly :: "string \<Rightarrow> world \<Rightarrow> world" where
  "unlink_quietly inputPath w =
     (case unlink (fs w) inputPath of Inl e \<Rightarrow> w | Inr fsys' \<Rightarrow> w\<lparr>fs := fsys'\<rparr>)"

text \<open>\<open>reqFile\<close> is \<open>req.file.path\<close>, where the upload middleware stored the file of
  the field \<open>audio\<close>, when the request had one.\<close>

definition speech_to_speech :: "config \<Rightarrow> provider \<Rightarrow> int \<Rightarrow> string option \<Rightarrow> (string \<Rightarrow> json option) \<Rightarrow> world \<Rightarrow> response \<times> world" where
  "speech_to_speech cfg up now reqFile reqBody w =
     (case reqFile of
        None \<Rightarrow> (error_response 400 Arquivo_obrigatorio, w)
      | Some inputPath \<Rightarrow>
          if \<not> truthy (reqBody ''voice'') then (error_response 400 voice_obrigatorio, w)
          else if key_missing (ELEVEN_KEY cfg) then (error_response 500 key_nao_configurada, w)
          else case sts_post up (the (ELEVEN_KEY cfg)) (the (reqBody ''voice''))
                      (lookup_node (fs w) inputPath) of
            Inl err \<Rightarrow> speech_to_speech_catch err w
          | Inr outBuffer \<Rightarrow>
              (case saveBufferToPublic cfg outBuffer (generated_filename ''s2s'' now ''mp3'') w of
                 Inl err \<Rightarrow> speech_to_speech_catch err w
               | Inr (publicPath, w1) \<Rightarrow> (audio_response publicPath, unlink_quietly inputPath w1)))"

subsection \<open>POST /api/createProject\<close>

definition projectName_obrigatorio :: string where
  "projectName_obrigatorio = ''projectName '' @ [CHR 0xE9] @ '' obrigat'' @ [CHR 0xF3] @ ''rio''"

definition Projeto_ja_existe :: string where
  "Projeto_ja_existe = ''Projeto j'' @ [CHR 0xE1] @ '' existe.''"

definition Pasta_criada :: "string \<Rightarrow> string" where
  "Pasta_criada projectName =
     ''Pasta do projeto '' @ [CHR 0x27] @ projectName @ [CHR 0x27] @ '' criada com sucesso!''"

definition createProject_catch :: "thrown \<Rightarrow> world \<Rightarrow> response \<times> world" where
  "createProject_catch err w =
     (error_response 500 ''Erro ao criar pasta'', console_error ''createProject error'' err w)"

definition projectFolderPath :: "config \<Rightarrow> string \<Rightarrow> string" where
  "projectFolderPath cfg projectName = path_join (PUBLIC_DIR cfg) (sanitize projectName)"

text \<open>A truthy \<open>projectName\<close> that is not a string has no \<open>replace\<close> method: calling
  it is a \<open>TypeError\<close>, caught like any other error.\<close>

definition createProject :: "config \<Rightarrow> (string \<Rightarrow> json option) \<Rightarrow> world \<Rightarrow> response \<times> world" where
  "createProject cfg reqBody w =
     (if \<not> truthy (reqBody ''projectName'') then (error_response 400 projectName_obrigatorio, w)
      else case reqBody ''projectName'' of
        Some (JStr projectName) \<Rightarrow>
          if existsSync (fs w) (projectFolderPath cfg projectName)
          then (message_response Projeto_ja_existe, w)
          else (case mkdir_recursive (fs w) (projectFolderPath cfg projectName) of
                  (Some e, fsys') \<Rightarrow>
                    createProject_catch (IOError e ''mkdir'' (projectFolderPath cfg projectName)) (w\<lparr>fs := fsys'\<rparr>)
                | (None, fsys') \<Rightarrow> (message_response (Pasta_criada projectName), w\<lparr>fs := fsys'\<rparr>))
      | _ \<Rightarrow> createProject_catch (TypeError ''projectName.replace is not a function'') w)"


section \<open>Vocabulary of the proofs\<close>

text \<open>A path segment that normalisation leaves alone: not empty, not \<open>.\<close> or \<open>..\<close>,
  and free of slashes.\<close>

definition clean :: "string \<Rightarrow> bool" where
  "clean s = (s \<noteq> [] \<and> s \<noteq> ''.'' \<and> s \<noteq> ''..'' \<and> CHR ''/'' \<notin> set s)"

definition abs_path :: "string list \<Rightarrow> string" where
  "abs_path xs = ''/'' @ join_sep xs"

text \<open>Reading a decimal numeral back.\<close>

definition undecimal :: "string \<Rightarrow> nat" where
  "undecimal s = foldl (\<lambda>a c. 10 * a + (of_char c - 48)) 0 s"

text \<open>A deployment to run the server on: the module lives in \<open>/srv/app\<close>.\<close>

definition cfg_example :: config where
  "cfg_example =
     \<lparr>dirname = ''/srv/app'', ELEVEN_API_KEY = Some ''sk_test'', XI_API_KEY = None,
      ELEVENLABS_API_KEY = None\<rparr>"

definition fs_bare :: filesystem where
  "fs_bare = \<lparr>nodes = [''/srv'' \<mapsto> Dir, ''/srv/app'' \<mapsto> Dir], denied = (\<lambda>p. False)\<rparr>"

definition fs_example :: filesystem where
  "fs_example =
     \<lparr>nodes = [''/srv'' \<mapsto> Dir, ''/srv/app'' \<mapsto> Dir, ''/srv/app/public'' \<mapsto> Dir,
               ''/srv/app/public/audios'' \<mapsto> Dir, ''/srv/app/uploads'' \<mapsto> Dir],
      denied = (\<lambda>p. False)\<rparr>"

definition w_example :: world where
  "w_example = \<lparr>fs = fs_example, console = []\<rparr>"

definition body_example :: "string \<Rightarrow> json option" where
  "body_example = [''text'' \<mapsto> JStr ''Ola'', ''voice'' \<mapsto> JStr ''Rachel'']"

definition up_example :: provider where
  "up_example =
     \<lparr>voices_getAll = (\<lambda>c. Inr (JArr [])),
      generate = (\<lambda>c b. Inr (Yield (BufferChunk [1, 2]) (Yield (ArrayChunk [3]) Done))),
      sts_post = (\<lambda>k v f. Inr [7, 8])\<rparr>"

text \<open>What a stream yields before it ends or raises, and what it raises.\<close>

fun gen_chunks :: "gen \<Rightarrow> chunk list" where
  "gen_chunks Done = []"
| "gen_chunks (Yield ch g) = ch # gen_chunks g"
| "gen_chunks (Raise err) = []"

fun gen_raises :: "gen \<Rightarrow> thrown option" where
  "gen_raises Done = None"
| "gen_raises (Yield ch g) = gen_raises g"
| "gen_raises (Raise err) = Some err"

text \<open>A provider whose stream breaks after its first chunk.\<close>

definition up_raising :: provider where
  "up_raising =
     \<lparr>voices_getAll = (\<lambda>c. Inr (JArr [])),
      generate = (\<lambda>c b. Inr (Yield (BufferChunk [1, 2]) (Raise (UpstreamError (Some ''stream reset''))))),
      sts_post = (\<lambda>k v f. Inr [7, 8])\<rparr>"

text \<open>Where \<open>writeArtifact\<close> puts the file of a call.\<close>

definition out_path :: "config \<Rightarrow> string \<Rightarrow> string \<Rightarrow> int \<Rightarrow> string" where
  "out_path cfg categoryPrefix extension now =
     path_join (AUDIOS_DIR cfg) (generated_filename categoryPrefix now extension)"

text \<open>The example store after two calls of the same millisecond.\<close>

definition w_collided :: world where
  "w_collided =
     \<lparr>fs = \<lparr>nodes = [''/srv'' \<mapsto> Dir, ''/srv/app'' \<mapsto> Dir, ''/srv/app/public'' \<mapsto> Dir,
               ''/srv/app/public/audios'' \<mapsto> Dir, ''/srv/app/uploads'' \<mapsto> Dir,
               ''/srv/app/public/audios/tts-1700000000123.mp3'' \<mapsto> File [2]],
             denied = (\<lambda>p. False)\<rparr>,
      console = []\<rparr>"

text \<open>The example store after two calls of different milliseconds.\<close>

definition w_two :: world where
  "w_two =
     \<lparr>fs = \<lparr>nodes = [''/srv'' \<mapsto> Dir, ''/srv/app'' \<mapsto> Dir, ''/srv/app/public'' \<mapsto> Dir,
               ''/srv/app/public/audios'' \<mapsto> Dir, ''/srv/app/uploads'' \<mapsto> Dir,
               ''/srv/app/public/audios/tts-1700000000123.mp3'' \<mapsto> File [1],
               ''/srv/app/public/audios/tts-1700000000124.mp3'' \<mapsto> File [2]],
             denied = (\<lambda>p. False)\<rparr>,
      console = []\<rparr>"

text \<open>The example store with an upload that the system refuses to remove, before and
  after a speech-to-speech request.\<close>

definition w_locked :: world where
  "w_locked =
     \<lparr>fs = \<lparr>nodes = [''/srv'' \<mapsto> Dir, ''/srv/app'' \<mapsto> Dir, ''/srv/app/public'' \<mapsto> Dir,
               ''/srv/app/public/audios'' \<mapsto> Dir, ''/srv/app/uploads'' \<mapsto> Dir,
               ''/srv/app/uploads/1700000000000-in.wav'' \<mapsto> File [5]],
             denied = (\<lambda>p. p = ''/srv/app/uploads/1700000000000-in.wav'')\<rparr>,
      console = []\<rparr>"

definition w_locked_after :: world where
  "w_locked_after =
     \<lparr>fs = \<lparr>nodes = [''/srv'' \<mapsto> Dir, ''/srv/app'' \<mapsto> Dir, ''/srv/app/public'' \<mapsto> Dir,
               ''/srv/app/public/audios'' \<mapsto> Dir, ''/srv/app/uploads'' \<mapsto> Dir,
               ''/srv/app/uploads/1700000000000-in.wav'' \<mapsto> File [5],
               ''/srv/app/public/audios/s2s-1700000000123.mp3'' \<mapsto> File [7, 8]],
             denied = (\<lambda>p. p = ''/srv/app/uploads/1700000000000-in.wav'')\<rparr>,
      console = []\<rparr>"

text \<open>The same with an upload that can be removed: before the request, after the
  artifact is saved, and at the end.\<close>

definition w_uploaded :: world where
  "w_uploaded =
     \<lparr>fs = \<lparr>nodes = [''/srv'' \<mapsto> Dir, ''/srv/app'' \<mapsto> Dir, ''/srv/app/public'' \<mapsto> Dir,
               ''/srv/app/public/audios'' \<mapsto> Dir, ''/srv/app/uploads'' \<mapsto> Dir,
               ''/srv/app/uploads/1700000000000-in.wav'' \<mapsto> File [5]],
             denied = (\<lambda>p. False)\<rparr>,
      console = []\<rparr>"

definition w_uploaded_saved :: world where
  "w_uploaded_saved =
     \<lparr>fs = \<lparr>nodes = [''/srv'' \<mapsto> Dir, ''/srv/app'' \<mapsto> Dir, ''/srv/app/public'' \<mapsto> Dir,
               ''/srv/app/public/audios'' \<mapsto> Dir, ''/srv/app/uploads'' \<mapsto> Dir,
               ''/srv/app/uploads/1700000000000-in.wav'' \<mapsto> File [5],
               ''/srv/app/public/audios/s2s-1700000000123.mp3'' \<mapsto> File [7, 8]],
             denied = (\<lambda>p. False)\<rparr>,
      console = []\<rparr>"

text \<open>The characters the specification lists: \<open>[A-Za-z0-9_-]\<close>.\<close>

definition class_chars :: string where
  "class_chars = ''ABCDEFGHIJKLMNOPQRSTUVWXYZabcdefghijklmnopqrstuvwxyz0123456789_-''"

text \<open>A project name that tries to leave the store, and the example store after the
  request that carries it.\<close>

definition body_traversal :: "string \<Rightarrow> json option" where
  "body_traversal = [''projectName'' \<mapsto> JStr ''../../etc/passwd'']"

definition w_traversal :: world where
  "w_traversal =
     \<lparr>fs = \<lparr>nodes = [''/srv'' \<mapsto> Dir, ''/srv/app'' \<mapsto> Dir, ''/srv/app/public'' \<mapsto> Dir,
               ''/srv/app/public/audios'' \<mapsto> Dir, ''/srv/app/uploads'' \<mapsto> Dir,
               ''/srv/app/public/______etc_passwd'' \<mapsto> Dir],
             denied = (\<lambda>p. False)\<rparr>,
      console = []\<rparr>"

text \<open>The request of the specification's example, and the store after it.\<close>

definition body_project :: "string \<Rightarrow> json option" where
  "body_project = [''projectName'' \<mapsto> JStr ''My Project!'']"

definition w_project :: world where
  "w_project =
     \<lparr>fs = \<lparr>nodes = [''/srv'' \<mapsto> Dir, ''/srv/app'' \<mapsto> Dir, ''/srv/app/public'' \<mapsto> Dir,
               ''/srv/app/public/audios'' \<mapsto> Dir, ''/srv/app/uploads'' \<mapsto> Dir,
               ''/srv/app/public/My_Project_'' \<mapsto> Dir],
             denied = (\<lambda>p. False)\<rparr>,
      console = []\<rparr>"

text \<open>A deployment with no credential variable at all, one whose \<open>.env\<close> has the line
  \<open>ELEVEN_API_KEY=\<close> with nothing after it, and a provider that refuses every call
  with a given error.\<close>

definition cfg_no_key :: config where
  "cfg_no_key =
     \<lparr>dirname = ''/srv/app'', ELEVEN_API_KEY = None, XI_API_KEY = None, ELEVENLABS_API_KEY = None\<rparr>"

definition cfg_empty_key :: config where
  "cfg_empty_key =
     \<lparr>dirname = ''/srv/app'', ELEVEN_API_KEY = Some [], XI_API_KEY = None, ELEVENLABS_API_KEY = None\<rparr>"

definition up_refusing :: "thrown \<Rightarrow> provider" where
  "up_refusing err =
     \<lparr>voices_getAll = (\<lambda>c. Inl err), generate = (\<lambda>c b. Inl err), sts_post = (\<lambda>k v f. Inl err)\<rparr>"

section \<open>Paths\<close>

lemma split_sep_not_Nil: "split_sep p \<noteq> []"
  by (induction p) (auto split: list.splits)

lemma split_sep_no_slash: "CHR ''/'' \<notin> set s \<Longrightarrow> split_sep s = [s]"
  by (induction s) auto

lemma split_sep_append: "CHR ''/'' \<notin> set nm \<Longrightarrow> split_sep (p @ CHR ''/'' # nm) = split_sep p @ [nm]"
proof (induction p)
  case Nil
  then show ?case by (simp add: split_sep_no_slash)
next
  case (Cons c p)
  then show ?case using split_sep_not_Nil [of p] by (cases "split_sep p") auto
qed

lemma join_sep_snoc: "xs \<noteq> [] \<Longrightarrow> join_sep (xs @ [s]) = join_sep xs @ CHR ''/'' # s"
  by (induction xs rule: join_sep.induct) auto

lemma join_sep_Cons: "xs \<noteq> [] \<Longrightarrow> join_sep (s # xs) = s @ ''/'' @ join_sep xs"
  by (cases xs) auto

lemma split_join:
  "xs \<noteq> [] \<Longrightarrow> list_all (\<lambda>s. CHR ''/'' \<notin> set s) xs \<Longrightarrow> split_sep (join_sep xs) = xs"
proof (induction xs rule: join_sep.induct)
  case 1
  then show ?case by simp
next
  case (2 s)
  then show ?case by (simp add: split_sep_no_slash)
next
  case (3 s t ss)
  have "split_sep (s @ ''/'' @ join_sep (t # ss)) = split_sep s @ split_sep (join_sep (t # ss))"
    using 3(3)
  proof (induction s)
    case Nil
    then show ?case by simp
  next
    case (Cons a s)
    then show ?case by (simp add: split_sep_no_slash)
  qed
  with 3 show ?case by (simp add: split_sep_no_slash)
qed

lemma norm_clean_step: "clean s \<Longrightarrow> norm_step a res s = res @ [s]"
  by (simp add: norm_step_def clean_def)

lemma foldl_norm_clean: "list_all clean xs \<Longrightarrow> foldl (norm_step a) res xs = res @ xs"
  by (induction xs arbitrary: res) (simp_all add: norm_clean_step)

lemma norm_step_keeps_clean:
  "list_all clean res \<Longrightarrow> CHR ''/'' \<notin> set s \<Longrightarrow> list_all clean (norm_step False res s)"
  by (auto simp: norm_step_def clean_def list_all_iff dest: in_set_butlastD)

lemma foldl_norm_keeps_clean:
  "list_all clean res \<Longrightarrow> list_all (\<lambda>s. CHR ''/'' \<notin> set s) xs \<Longrightarrow> list_all clean (foldl (norm_step False) res xs)"
  by (induction xs arbitrary: res) (simp_all add: norm_step_keeps_clean)

lemma split_sep_slash_free: "list_all (\<lambda>s. CHR ''/'' \<notin> set s) (split_sep p)"
proof (induction p)
  case Nil
  then show ?case by simp
next
  case (Cons c p)
  then show ?case using split_sep_not_Nil [of p] by (cases "split_sep p") auto
qed

lemma path_segments_clean: "isAbsolute p \<Longrightarrow> list_all clean (path_segments p)"
  by (simp add: path_segments_def normalizeString_def foldl_norm_keeps_clean split_sep_slash_free)

lemma path_join_abs:
  assumes "isAbsolute d" "clean nm"
  shows "path_join d nm = abs_path (path_segments d @ [nm])"
proof -
  from assms have d: "d \<noteq> []" and nm: "nm \<noteq> []" "CHR ''/'' \<notin> set nm"
    by (auto simp: isAbsolute_def clean_def)
  have abs: "isAbsolute (d @ ''/'' @ nm)" using assms(1) by (cases d) (auto simp: isAbsolute_def)
  have last: "last (d @ ''/'' @ nm) \<noteq> CHR ''/''" using nm by (cases nm rule: rev_cases) auto
  have seg: "normalizeString False (split_sep (d @ ''/'' @ nm)) = path_segments d @ [nm]"
    using assms by (simp add: split_sep_append nm normalizeString_def path_segments_def norm_clean_step)
  have ne: "join_sep (path_segments d @ [nm]) \<noteq> []"
    using nm by (cases "path_segments d = []") (simp_all add: join_sep_snoc)
  show ?thesis
    using d nm abs last seg ne by (simp add: path_join_def posix_normalize_def abs_path_def Let_def)
qed

lemma abs_path_segments:
  assumes "list_all clean xs" "xs \<noteq> []"
  shows "path_segments (abs_path xs) = xs" and "isAbsolute (abs_path xs)"
proof -
  have sf: "list_all (\<lambda>s. CHR ''/'' \<notin> set s) xs" using assms(1) by (simp add: list_all_iff clean_def)
  show "isAbsolute (abs_path xs)" by (simp add: abs_path_def isAbsolute_def)
  then show "path_segments (abs_path xs) = xs"
    using assms sf by (simp add: path_segments_def abs_path_def normalizeString_def split_join norm_step_def foldl_norm_clean)
qed

lemma abs_path_snoc: "xs \<noteq> [] \<Longrightarrow> abs_path (xs @ [s]) = abs_path xs @ CHR ''/'' # s"
  by (simp add: abs_path_def join_sep_snoc)

lemma path_join_child:
  assumes "list_all clean xs" "xs \<noteq> []" "clean nm"
  shows "path_join (abs_path xs) nm = abs_path xs @ CHR ''/'' # nm"
  using assms by (simp add: path_join_abs abs_path_segments abs_path_snoc)

lemma parent_dir_child:
  assumes "list_all clean xs" "xs \<noteq> []" "clean nm"
  shows "parent_dir (abs_path xs @ CHR ''/'' # nm) = abs_path xs"
proof -
  have "list_all clean (xs @ [nm])" using assms by simp
  then have "path_segments (abs_path (xs @ [nm])) = xs @ [nm]" "isAbsolute (abs_path (xs @ [nm]))"
    using abs_path_segments [of "xs @ [nm]"] by simp_all
  then show ?thesis using assms(2)
    by (simp add: parent_dir_def path_root_def abs_path_snoc) (simp add: abs_path_def)
qed

lemma path_join_relative:
  assumes "clean a" "clean nm"
  shows "path_join a nm = a @ CHR ''/'' # nm"
proof -
  from assms have a: "a \<noteq> []" "CHR ''/'' \<notin> set a" and nm: "nm \<noteq> []" "CHR ''/'' \<notin> set nm"
    by (auto simp: clean_def)
  have nabs: "\<not> isAbsolute (a @ ''/'' @ nm)" using a by (cases a) (auto simp: isAbsolute_def)
  have last: "last (a @ ''/'' @ nm) \<noteq> CHR ''/''" using nm by (cases nm rule: rev_cases) auto
  have seg: "normalizeString True (split_sep (a @ ''/'' @ nm)) = [a, nm]"
    using assms a nm by (simp add: split_sep_append split_sep_no_slash normalizeString_def norm_clean_step)
  show ?thesis using a nm nabs last seg
    by (simp add: path_join_def posix_normalize_def Let_def)
qed

section \<open>Decimal numerals and generated file names\<close>

lemma small_nat:
  "(d::nat) < 10 \<Longrightarrow> d = 0 \<or> d = 1 \<or> d = 2 \<or> d = 3 \<or> d = 4 \<or> d = 5 \<or> d = 6 \<or> d = 7 \<or> d = 8 \<or> d = 9"
  by arith

lemma digit_char_code: "d < 10 \<Longrightarrow> of_char (digit_char d) = (48::nat) + d"
  by (drule small_nat) (elim disjE; simp add: digit_char_def)

lemma digit_char_digit: "d < 10 \<Longrightarrow> digit_char d \<in> set ''0123456789''"
  by (drule small_nat) (elim disjE; simp add: digit_char_def)

lemma undecimal_snoc: "undecimal (s @ [c]) = 10 * undecimal s + (of_char c - 48)"
  by (simp add: undecimal_def)

lemma undecimal_decimal: "undecimal (decimal n) = n"
proof (induction n rule: decimal.induct)
  case (1 n)
  show ?case
  proof (cases "n < 10")
    case True
    then show ?thesis by (simp add: decimal.simps [of n] undecimal_def digit_char_code)
  next
    case False
    with 1 show ?thesis
      by (simp add: decimal.simps [of n] undecimal_snoc digit_char_code)
  qed
qed

lemma decimal_inj: "decimal a = decimal b \<Longrightarrow> a = b"
  by (metis undecimal_decimal)

lemma decimal_digits: "set (decimal n) \<subseteq> set ''0123456789''"
proof (induction n rule: decimal.induct)
  case (1 n)
  show ?case
  proof (cases "n < 10")
    case True
    then show ?thesis using digit_char_digit [of n] by (simp add: decimal.simps [of n])
  next
    case False
    with 1 show ?thesis using digit_char_digit [of "n mod 10"]
      by (simp add: decimal.simps [of n])
  qed
qed

lemma decimal_not_Nil: "decimal n \<noteq> []"
  by (simp add: decimal.simps [of n])

lemma decimal_no_slash: "CHR ''/'' \<notin> set (decimal n)"
  using decimal_digits [of n] by auto

lemma decimal_no_minus: "CHR ''-'' \<notin> set (decimal n)"
  using decimal_digits [of n] by auto

lemma Number_toString_no_slash: "CHR ''/'' \<notin> set (Number_toString i)"
  by (simp add: Number_toString_def decimal_no_slash)

lemma Number_toString_inj: "Number_toString a = Number_toString b \<Longrightarrow> a = b"
proof -
  assume eq: "Number_toString a = Number_toString b"
  have minus: "CHR ''-'' # decimal x \<noteq> decimal y" for x y
  proof
    assume "CHR ''-'' # decimal x = decimal y"
    then have "CHR ''-'' \<in> set (decimal y)" by (metis list.set_intros(1))
    then show False using decimal_no_minus [of y] by simp
  qed
  show ?thesis
  proof (cases "a < 0")
    case True
    show ?thesis
    proof (cases "b < 0")
      case True
      with \<open>a < 0\<close> eq have "nat (- a) = nat (- b)" by (auto simp: Number_toString_def dest: decimal_inj)
      with True \<open>a < 0\<close> show ?thesis by simp
    next
      case False
      with \<open>a < 0\<close> eq minus show ?thesis by (simp add: Number_toString_def)
    qed
  next
    case False
    show ?thesis
    proof (cases "b < 0")
      case True
      with \<open>\<not> a < 0\<close> eq minus [of "nat (- b)" "nat a"] show ?thesis by (simp add: Number_toString_def)
    next
      case False
      with \<open>\<not> a < 0\<close> eq have "nat a = nat b" by (auto simp: Number_toString_def dest: decimal_inj)
      with False \<open>\<not> a < 0\<close> show ?thesis by simp
    qed
  qed
qed

lemma generated_filename_inj:
  "generated_filename p a e = generated_filename p b e \<Longrightarrow> a = b"
  by (auto simp: generated_filename_def dest: Number_toString_inj)

lemma generated_filename_clean:
  assumes "CHR ''/'' \<notin> set p" "CHR ''/'' \<notin> set e"
  shows "clean (generated_filename p t e)"
proof -
  have mem: "CHR ''-'' \<in> set (generated_filename p t e)" by (simp add: generated_filename_def)
  have "generated_filename p t e \<noteq> ''.''" "generated_filename p t e \<noteq> ''..''" "generated_filename p t e \<noteq> []"
    using mem by auto
  moreover have "CHR ''/'' \<notin> set (generated_filename p t e)"
    using assms Number_toString_no_slash [of t] by (simp add: generated_filename_def)
  ultimately show ?thesis by (simp add: clean_def)
qed


lemma clean_audios: "clean ''audios''"
  by (simp add: clean_def)

lemma clean_public: "clean ''public''"
  by (simp add: clean_def)

lemma tts_clean: "clean (generated_filename ''tts'' now ''mp3'')"
  by (rule generated_filename_clean) simp_all

lemma s2s_clean: "clean (generated_filename ''s2s'' now ''mp3'')"
  by (rule generated_filename_clean) simp_all

section \<open>The directories of the server\<close>

lemma PUBLIC_DIR_abs:
  "isAbsolute (dirname cfg) \<Longrightarrow> PUBLIC_DIR cfg = abs_path (path_segments (dirname cfg) @ [''public''])"
  by (simp add: PUBLIC_DIR_def path_join_abs clean_public)

lemma AUDIOS_DIR_abs:
  assumes "isAbsolute (dirname cfg)"
  shows "AUDIOS_DIR cfg = abs_path (path_segments (dirname cfg) @ [''public'', ''audios''])"
proof -
  have "list_all clean (path_segments (dirname cfg) @ [''public''])"
    using assms by (simp add: path_segments_clean clean_public)
  then have "path_join (abs_path (path_segments (dirname cfg) @ [''public''])) ''audios''
      = abs_path ((path_segments (dirname cfg) @ [''public'']) @ [''audios''])"
    by (simp add: path_join_abs abs_path_segments clean_audios)
  then show ?thesis using assms by (simp add: AUDIOS_DIR_def PUBLIC_DIR_abs)
qed

lemma child_path:
  assumes "list_all clean xs" "xs \<noteq> []" "clean nm"
  shows "path_join (abs_path xs) nm = abs_path xs @ CHR ''/'' # nm"
    and "parent_dir (path_join (abs_path xs) nm) = abs_path xs"
  using assms by (simp_all add: path_join_child parent_dir_child)

lemma audios_child:
  assumes "isAbsolute (dirname cfg)" "clean nm"
  shows "path_join (AUDIOS_DIR cfg) nm = AUDIOS_DIR cfg @ CHR ''/'' # nm"
    and "parent_dir (path_join (AUDIOS_DIR cfg) nm) = AUDIOS_DIR cfg"
proof -
  have "list_all clean (path_segments (dirname cfg) @ [''public'', ''audios''])"
    using assms by (simp add: path_segments_clean clean_public clean_audios)
  then show "path_join (AUDIOS_DIR cfg) nm = AUDIOS_DIR cfg @ CHR ''/'' # nm"
    and "parent_dir (path_join (AUDIOS_DIR cfg) nm) = AUDIOS_DIR cfg"
    using assms child_path [of "path_segments (dirname cfg) @ [''public'', ''audios'']" nm]
    by (simp_all add: AUDIOS_DIR_abs)
qed

lemma public_child:
  assumes "isAbsolute (dirname cfg)" "clean nm"
  shows "path_join (PUBLIC_DIR cfg) nm = PUBLIC_DIR cfg @ CHR ''/'' # nm"
    and "parent_dir (path_join (PUBLIC_DIR cfg) nm) = PUBLIC_DIR cfg"
proof -
  have "list_all clean (path_segments (dirname cfg) @ [''public''])"
    using assms by (simp add: path_segments_clean clean_public)
  then show "path_join (PUBLIC_DIR cfg) nm = PUBLIC_DIR cfg @ CHR ''/'' # nm"
    and "parent_dir (path_join (PUBLIC_DIR cfg) nm) = PUBLIC_DIR cfg"
    using assms child_path [of "path_segments (dirname cfg) @ [''public'']" nm]
    by (simp_all add: PUBLIC_DIR_abs)
qed

section \<open>File operations\<close>

lemma writeFile_Inr:
  "writeFile fsys p b = Inr fsys' \<Longrightarrow> fsys' = fsys\<lparr>nodes := (nodes fsys)(p \<mapsto> File b)\<rparr> \<and> p \<noteq> ''/''"
  by (auto simp: writeFile_def lookup_node_def split: if_splits option.splits node.splits)

lemma writeFile_read:
  "writeFile fsys p b = Inr fsys' \<Longrightarrow> readFile fsys' p = Some b"
  by (drule writeFile_Inr) (simp add: readFile_def lookup_node_def)

lemma writeFile_other:
  "writeFile fsys p b = Inr fsys' \<Longrightarrow> q \<noteq> p \<Longrightarrow> lookup_node fsys' q = lookup_node fsys q"
  by (drule writeFile_Inr) (simp add: lookup_node_def)

lemma writeFile_succeeds:
  "\<not> denied fsys p \<Longrightarrow> lookup_node fsys p \<noteq> Some Dir \<Longrightarrow> lookup_node fsys (parent_dir p) = Some Dir \<Longrightarrow>
   writeFile fsys p b = Inr (fsys\<lparr>nodes := (nodes fsys)(p \<mapsto> File b)\<rparr>)"
  by (auto simp: writeFile_def split: option.splits node.splits)

lemma mkdir_chain_exists:
  "mkdir_chain fsys ps = (r, fsys') \<Longrightarrow> existsSync fsys q \<Longrightarrow> existsSync fsys' q"
proof (induction ps arbitrary: fsys)
  case Nil
  then show ?case by simp
next
  case (Cons p ps)
  show ?case
  proof (cases "lookup_node fsys p")
    case None
    show ?thesis
    proof (cases "denied fsys p")
      case True
      with None Cons.prems show ?thesis by simp
    next
      case False
      have "existsSync (fsys\<lparr>nodes := (nodes fsys)(p \<mapsto> Dir)\<rparr>) q"
        using Cons.prems(2) by (auto simp: existsSync_def lookup_node_def split: if_splits)
      with Cons.IH [of "fsys\<lparr>nodes := (nodes fsys)(p \<mapsto> Dir)\<rparr>"] Cons.prems(1) None False
      show ?thesis by simp
    qed
  next
    case (Some n)
    with Cons show ?thesis by (cases n) auto
  qed
qed

lemma mkdir_chain_last:
  "mkdir_chain fsys (qs @ [p]) = (None, fsys') \<Longrightarrow> lookup_node fsys' p = Some Dir"
proof (induction qs arbitrary: fsys)
  case Nil
  then show ?case
    by (auto simp: lookup_node_def split: option.splits node.splits if_splits)
next
  case (Cons q qs)
  then show ?case
    by (auto split: option.splits node.splits if_splits)
qed

lemma mkdir_recursive_exists:
  "mkdir_recursive fsys p = (None, fsys') \<Longrightarrow> existsSync fsys' p"
  by (simp add: mkdir_recursive_def existsSync_def mkdir_chain_last)

lemma mkdir_recursive_keeps:
  "mkdir_recursive fsys p = (r, fsys') \<Longrightarrow> existsSync fsys q \<Longrightarrow> existsSync fsys' q"
  by (simp add: mkdir_recursive_def mkdir_chain_exists)

lemma ensureDirectories_keeps:
  "ensureDirectories fsys ds = Inr fsys' \<Longrightarrow> existsSync fsys q \<Longrightarrow> existsSync fsys' q"
proof (induction ds arbitrary: fsys)
  case Nil
  then show ?case by simp
next
  case (Cons d ds)
  then show ?case
    by (auto split: if_splits prod.splits option.splits dest: mkdir_recursive_keeps)
qed

lemma ensureDirectories_all_exist:
  "ensureDirectories fsys ds = Inr fsys' \<Longrightarrow> list_all (existsSync fsys') ds"
proof (induction ds arbitrary: fsys)
  case Nil
  then show ?case by simp
next
  case (Cons d ds)
  then show ?case
    by (auto split: if_splits prod.splits option.splits
        dest: mkdir_recursive_exists ensureDirectories_keeps)
qed

lemma ensureDirectories_present:
  "list_all (existsSync fsys) ds \<Longrightarrow> ensureDirectories fsys ds = Inr fsys"
  by (induction ds) simp_all

section \<open>Responses\<close>

lemma status_simps:
  "status (error_response c m) = c"
  "status (error_details_response c m d) = c"
  "status (audio_response p) = 200"
  "status (message_response m) = 200"
  by (simp_all add: error_response_def error_details_response_def audio_response_def message_response_def)

lemma saveBufferToPublic_ref:
  "saveBufferToPublic cfg buffer filename w = Inr (publicPath, w') \<Longrightarrow> clean filename \<Longrightarrow>
   publicPath = ''audios/'' @ filename"
  by (auto simp: saveBufferToPublic_def Let_def path_join_relative clean_audios split: sum.splits)

lemma generateAudio_cases:
  "fst (generateAudio cfg up now reqBody w) = audio_response (''audios/'' @ generated_filename ''tts'' now ''mp3'')
   \<or> status (fst (generateAudio cfg up now reqBody w)) \<in> {400, 500}"
  by (auto simp: generateAudio_def generateAudio_catch_def status_simps Let_def tts_clean
      split: sum.splits prod.splits dest!: saveBufferToPublic_ref)

lemma generateAudio_ok:
  assumes "status (fst (generateAudio cfg up now reqBody w)) = 200"
  shows "fst (generateAudio cfg up now reqBody w) = audio_response (''audios/'' @ generated_filename ''tts'' now ''mp3'')"
  using assms generateAudio_cases [of cfg up now reqBody w] by auto

lemma speech_to_speech_cases:
  "fst (speech_to_speech cfg up now reqFile reqBody w) = audio_response (''audios/'' @ generated_filename ''s2s'' now ''mp3'')
   \<or> status (fst (speech_to_speech cfg up now reqFile reqBody w)) \<in> {400, 500}"
  by (auto simp: speech_to_speech_def speech_to_speech_catch_def status_simps Let_def s2s_clean
      split: sum.splits prod.splits option.splits dest!: saveBufferToPublic_ref)

lemma speech_to_speech_ok:
  assumes "status (fst (speech_to_speech cfg up now reqFile reqBody w)) = 200"
  shows "fst (speech_to_speech cfg up now reqFile reqBody w) = audio_response (''audios/'' @ generated_filename ''s2s'' now ''mp3'')"
  using assms speech_to_speech_cases [of cfg up now reqFile reqBody w] by auto

section \<open>Streams, saving and runs of calls\<close>

lemma toBuffer_payload: "toBuffer ch = payload ch"
  by (cases ch) simp_all

lemma drain_eq:
  "drain g chunks =
     (case gen_raises g of Some err \<Rightarrow> Inl err | None \<Rightarrow> Inr (chunks @ map toBuffer (gen_chunks g)))"
  by (induction g arbitrary: chunks) (simp_all split: option.splits)

lemma saveBufferToPublic_Inr:
  "saveBufferToPublic cfg buffer filename w = Inr (publicPath, w') \<Longrightarrow>
   publicPath = path_join ''audios'' filename \<and>
   writeFile (fs w) (path_join (AUDIOS_DIR cfg) filename) buffer = Inr (fs w') \<and>
   console w' = console w"
  by (auto simp: saveBufferToPublic_def Let_def split: sum.splits)

lemma saveBufferToPublic_read:
  "saveBufferToPublic cfg buffer filename w = Inr (publicPath, w') \<Longrightarrow>
   readFile (fs w') (path_join (AUDIOS_DIR cfg) filename) = Some buffer"
  by (drule saveBufferToPublic_Inr) (auto dest: writeFile_read)

lemma saveBufferToPublic_Inl:
  "saveBufferToPublic cfg buffer filename w = Inl err \<Longrightarrow>
   \<exists>e. err = IOError e ''open'' (path_join (AUDIOS_DIR cfg) filename)"
  by (auto simp: saveBufferToPublic_def Let_def split: sum.splits)

lemma generateAudio_after_generate:
  assumes "truthy (reqBody ''text'')"
    and "new_ElevenLabsClient cfg (ELEVEN_API_KEY cfg) = Inr c"
    and "voices_getAll up c = Inr voices"
    and "generate up c reqBody = Inr g"
  shows "generateAudio cfg up now reqBody w =
     (case drain g [] of
        Inl err \<Rightarrow> generateAudio_catch err (console_log voices w)
      | Inr chunks \<Rightarrow>
         (case saveBufferToPublic cfg (concat chunks) (generated_filename ''tts'' now ''mp3'') (console_log voices w) of
            Inl err \<Rightarrow> generateAudio_catch err (console_log voices w)
          | Inr (publicPath, w2) \<Rightarrow> (audio_response publicPath, w2)))"
  using assms by (simp add: generateAudio_def Let_def)

lemma fs_console_error: "fs (console_error tag err w) = fs w"
  by (simp add: console_error_def)

lemma fs_console_log: "fs (console_log v w) = fs w"
  by (simp add: console_log_def)

lemma writeArtifacts_frame:
  "writeArtifacts cfg p e calls w = Inr (refs, w') \<Longrightarrow>
   refs = map (\<lambda>c. path_join ''audios'' (generated_filename p (fst c) e)) calls \<and>
   console w' = console w \<and>
   (\<forall>q. q \<notin> set (map (\<lambda>c. out_path cfg p e (fst c)) calls) \<longrightarrow>
        lookup_node (fs w') q = lookup_node (fs w) q)"
proof (induction calls arbitrary: w refs w')
  case Nil
  then show ?case by simp
next
  case (Cons c calls)
  obtain t b where c: "c = (t, b)" by (cases c)
  from Cons.prems c obtain r1 w1 rs where
    one: "saveBufferToPublic cfg b (generated_filename p t e) w = Inr (r1, w1)"
    and rest: "writeArtifacts cfg p e calls w1 = Inr (rs, w')"
    and refs: "refs = r1 # rs"
    by (auto simp: writeArtifact_def split: sum.splits prod.splits)
  from saveBufferToPublic_Inr [OF one]
  have r1: "r1 = path_join ''audios'' (generated_filename p t e)"
    and wr: "writeFile (fs w) (out_path cfg p e t) b = Inr (fs w1)"
    and co: "console w1 = console w"
    by (simp_all add: out_path_def)
  from Cons.IH [OF rest]
  have ih: "rs = map (\<lambda>c. path_join ''audios'' (generated_filename p (fst c) e)) calls"
    "console w' = console w1"
    "\<And>q. q \<notin> set (map (\<lambda>c. out_path cfg p e (fst c)) calls) \<Longrightarrow>
        lookup_node (fs w') q = lookup_node (fs w1) q"
    by simp_all
  show ?case using refs r1 co ih c writeFile_other [OF wr] by auto
qed

lemma out_path_inj:
  assumes "isAbsolute (dirname cfg)" "CHR ''/'' \<notin> set p" "CHR ''/'' \<notin> set e"
    and "out_path cfg p e a = out_path cfg p e b"
  shows "a = b"
proof -
  have "clean (generated_filename p a e)" "clean (generated_filename p b e)"
    using assms by (simp_all add: generated_filename_clean)
  with assms(1,4) have "generated_filename p a e = generated_filename p b e"
    by (simp add: out_path_def audios_child)
  then show ?thesis by (rule generated_filename_inj)
qed

lemma out_path_form:
  assumes "isAbsolute (dirname cfg)" "CHR ''/'' \<notin> set p" "CHR ''/'' \<notin> set e"
  shows "out_path cfg p e t = AUDIOS_DIR cfg @ ''/'' @ generated_filename p t e"
  using assms by (simp add: out_path_def audios_child generated_filename_clean)

lemma writeArtifacts_contents:
  assumes "isAbsolute (dirname cfg)" "CHR ''/'' \<notin> set p" "CHR ''/'' \<notin> set e"
  shows "writeArtifacts cfg p e calls w = Inr (refs, w') \<Longrightarrow> distinct (map fst calls) \<Longrightarrow>
     list_all (\<lambda>c. readFile (fs w') (out_path cfg p e (fst c)) = Some (snd c)) calls"
proof (induction calls arbitrary: w refs w')
  case Nil
  then show ?case by simp
next
  case (Cons c calls)
  obtain t b where c: "c = (t, b)" by (cases c)
  from Cons.prems(1) c obtain r1 w1 rs where
    one: "saveBufferToPublic cfg b (generated_filename p t e) w = Inr (r1, w1)"
    and rest: "writeArtifacts cfg p e calls w1 = Inr (rs, w')"
    by (auto simp: writeArtifact_def split: sum.splits prod.splits)
  from Cons.prems(2) c have d: "distinct (map fst calls)" and nt: "t \<notin> set (map fst calls)"
    by simp_all
  have "out_path cfg p e t \<notin> set (map (\<lambda>c. out_path cfg p e (fst c)) calls)"
  proof
    assume "out_path cfg p e t \<in> set (map (\<lambda>c. out_path cfg p e (fst c)) calls)"
    then obtain c' where "c' \<in> set calls" "out_path cfg p e t = out_path cfg p e (fst c')" by auto
    with out_path_inj [OF assms] nt show False by force
  qed
  with writeArtifacts_frame [OF rest]
  have "lookup_node (fs w') (out_path cfg p e t) = lookup_node (fs w1) (out_path cfg p e t)"
    by simp
  moreover from saveBufferToPublic_read [OF one]
  have "readFile (fs w1) (out_path cfg p e t) = Some b" by (simp add: out_path_def)
  ultimately have "readFile (fs w') (out_path cfg p e t) = Some b"
    by (simp add: readFile_def)
  with Cons.IH [OF rest d] c show ?case by simp
qed

lemma unlink_Inr:
  "unlink fsys p = Inr fsys' \<Longrightarrow> fsys' = fsys\<lparr>nodes := (nodes fsys)(p := None)\<rparr> \<and> p \<noteq> ''/''"
  by (auto simp: unlink_def lookup_node_def split: option.splits node.splits if_splits)

section \<open>The character class\<close>

text \<open>The ranges of the class, cut into short enumerations of character codes.\<close>

lemma upper_split: "(65 \<le> n \<and> n \<le> 90) = ((65 \<le> n \<and> n \<le> 77) \<or> (78 \<le> n \<and> n \<le> (90::nat)))"
  by arith

lemma lower_split: "(97 \<le> n \<and> n \<le> 122) = ((97 \<le> n \<and> n \<le> 109) \<or> (110 \<le> n \<and> n \<le> (122::nat)))"
  by arith

lemma upper_range_A_M:
  "(65 \<le> n \<and> n \<le> 77) = ((n::nat) \<in> {65, 66, 67, 68, 69, 70, 71, 72, 73, 74, 75, 76, 77})"
  by (simp del: One_nat_def) arith

lemma upper_range_N_Z:
  "(78 \<le> n \<and> n \<le> 90) = ((n::nat) \<in> {78, 79, 80, 81, 82, 83, 84, 85, 86, 87, 88, 89, 90})"
  by (simp del: One_nat_def) arith

lemma lower_range_a_m:
  "(97 \<le> n \<and> n \<le> 109) = ((n::nat) \<in> {97, 98, 99, 100, 101, 102, 103, 104, 105, 106, 107, 108, 109})"
  by (simp del: One_nat_def) arith

lemma lower_range_n_z:
  "(110 \<le> n \<and> n \<le> 122) = ((n::nat) \<in> {110, 111, 112, 113, 114, 115, 116, 117, 118, 119, 120, 121, 122})"
  by (simp del: One_nat_def) arith

lemma digit_range:
  "(48 \<le> n \<and> n \<le> 57) = ((n::nat) \<in> {48, 49, 50, 51, 52, 53, 54, 55, 56, 57})"
  by (simp del: One_nat_def) arith

lemma char_code_eq: "(c = d) = ((of_char c :: nat) = of_char d)"
  by (simp add: of_char_eq_iff)

lemma in_class_iff: "in_class c = (c \<in> set class_chars)"
proof -
  have "(c \<in> set class_chars) = ((of_char c :: nat) \<in> of_char ` set class_chars)"
    by (simp add: inj_image_mem_iff inj_on_def)
  also have "\<dots> = in_class c"
    unfolding in_class_def Let_def upper_split lower_split upper_range_A_M upper_range_N_Z
      lower_range_a_m lower_range_n_z digit_range
      char_code_eq [of c "CHR ''-''"] char_code_eq [of c "CHR ''_''"]
    by (auto simp: class_chars_def)
  finally show ?thesis by simp
qed

section \<open>Project folders\<close>

lemma in_class_underscore: "in_class (CHR ''_'')"
  by (simp add: in_class_def)

lemma sanitize_in_class: "c \<in> set (sanitize projectName) \<Longrightarrow> in_class c"
  by (auto simp: sanitize_def in_class_underscore)

lemma sanitize_chars: "set (sanitize projectName) \<subseteq> set class_chars"
  using sanitize_in_class by (auto simp: in_class_iff)

lemma sanitize_no_separator:
  "CHR ''/'' \<notin> set (sanitize projectName)"
  "CHR ''.'' \<notin> set (sanitize projectName)"
  "CHR 0x5C \<notin> set (sanitize projectName)"
proof -
  have "\<not> in_class (CHR ''/'')" "\<not> in_class (CHR ''.'')" "\<not> in_class (CHR 0x5C)"
    by (simp_all add: in_class_def)
  then show "CHR ''/'' \<notin> set (sanitize projectName)"
    "CHR ''.'' \<notin> set (sanitize projectName)"
    "CHR 0x5C \<notin> set (sanitize projectName)"
    using sanitize_in_class [of _ projectName] by blast+
qed

lemma sanitize_clean: "projectName \<noteq> [] \<Longrightarrow> clean (sanitize projectName)"
proof -
  assume ne: "projectName \<noteq> []"
  then have "sanitize projectName \<noteq> []" by (simp add: sanitize_def)
  moreover have "sanitize projectName \<noteq> ''.''" "sanitize projectName \<noteq> ''..''"
    using sanitize_no_separator(2) [of projectName] by auto
  ultimately show ?thesis using sanitize_no_separator(1) by (simp add: clean_def)
qed

lemma sanitize_spec:
  "sanitize projectName = map (\<lambda>c. if c \<in> set class_chars then c else CHR ''_'') projectName"
  by (simp add: sanitize_def in_class_iff)

lemma projectFolderPath_child:
  assumes "isAbsolute (dirname cfg)" "projectName \<noteq> []"
  shows "projectFolderPath cfg projectName = PUBLIC_DIR cfg @ ''/'' @ sanitize projectName"
    and "parent_dir (projectFolderPath cfg projectName) = PUBLIC_DIR cfg"
  using assms public_child [of cfg "sanitize projectName"]
  by (simp_all add: projectFolderPath_def sanitize_clean)

lemma mkdir_chain_frame:
  "mkdir_chain fsys ps = (r, fsys') \<Longrightarrow> lookup_node fsys' q \<noteq> lookup_node fsys q \<Longrightarrow>
   q \<in> set ps \<and> lookup_node fsys' q = Some Dir"
proof (induction ps arbitrary: fsys)
  case Nil
  then show ?case by simp
next
  case (Cons p ps)
  show ?case
  proof (cases "lookup_node fsys p")
    case None
    show ?thesis
    proof (cases "denied fsys p")
      case True
      with None Cons.prems show ?thesis by simp
    next
      case False
      let ?f = "fsys\<lparr>nodes := (nodes fsys)(p \<mapsto> Dir)\<rparr>"
      from Cons.prems(1) None False have run: "mkdir_chain ?f ps = (r, fsys')" by simp
      have ex: "existsSync ?f p" using None by (auto simp: existsSync_def lookup_node_def)
      show ?thesis
      proof (cases "lookup_node fsys' q = lookup_node ?f q")
        case True
        with Cons.prems(2) have "q = p" by (auto simp: lookup_node_def split: if_splits)
        moreover from True \<open>q = p\<close> None have "lookup_node fsys' q = Some Dir"
          by (auto simp: lookup_node_def split: if_splits)
        ultimately show ?thesis by simp
      next
        case False
        from Cons.IH [OF run False] show ?thesis by simp
      qed
    qed
  next
    case (Some n)
    with Cons show ?thesis by (cases n) auto
  qed
qed

lemma createProject_frame:
  assumes "lookup_node (fs (snd (createProject cfg reqBody w))) q \<noteq> lookup_node (fs w) q"
  shows "lookup_node (fs (snd (createProject cfg reqBody w))) q = Some Dir \<and>
         (\<exists>name. reqBody ''projectName'' = Some (JStr name) \<and> name \<noteq> [] \<and>
            q \<in> set (ancestors (projectFolderPath cfg name) @ [projectFolderPath cfg name]))"
proof (cases "truthy (reqBody ''projectName'')")
  case False
  with assms show ?thesis by (simp add: createProject_def)
next
  case True
  show ?thesis
  proof (cases "\<exists>name. reqBody ''projectName'' = Some (JStr name)")
    case False
    then have "snd (createProject cfg reqBody w) = console_error ''createProject error''
        (TypeError ''projectName.replace is not a function'') w"
      using True by (auto simp: createProject_def createProject_catch_def split: option.splits json.splits)
    with assms show ?thesis by (simp add: fs_console_error)
  next
    case True
    then obtain name where n: "reqBody ''projectName'' = Some (JStr name)" by blast
    with \<open>truthy (reqBody ''projectName'')\<close> have ne: "name \<noteq> []" by simp
    let ?pf = "projectFolderPath cfg name"
    show ?thesis
    proof (cases "existsSync (fs w) ?pf")
      case True
      with n ne assms show ?thesis by (simp add: createProject_def)
    next
      case False
      obtain r fsys' where m: "mkdir_recursive (fs w) ?pf = (r, fsys')" by (cases "mkdir_recursive (fs w) ?pf")
      with n ne False have "fs (snd (createProject cfg reqBody w)) = fsys'"
        by (cases r) (simp_all add: createProject_def createProject_catch_def fs_console_error)
      with assms mkdir_chain_frame [of "fs w" "ancestors ?pf @ [?pf]" r fsys' q] m n ne
      show ?thesis by (auto simp: mkdir_recursive_def)
    qed
  qed
qed

lemma messages_differ: "Projeto_ja_existe \<noteq> Pasta_criada projectName"
  by (simp add: Projeto_ja_existe_def Pasta_criada_def)

lemma createProject_string:
  assumes "reqBody ''projectName'' = Some (JStr name)" "name \<noteq> []"
  shows "createProject cfg reqBody w =
     (if existsSync (fs w) (projectFolderPath cfg name) then (message_response Projeto_ja_existe, w)
      else case mkdir_recursive (fs w) (projectFolderPath cfg name) of
        (Some e, fsys') \<Rightarrow>
          createProject_catch (IOError e ''mkdir'' (projectFolderPath cfg name)) (w\<lparr>fs := fsys'\<rparr>)
      | (None, fsys') \<Rightarrow> (message_response (Pasta_criada name), w\<lparr>fs := fsys'\<rparr>))"
  using assms by (simp add: createProject_def)

section \<open>The configuration check\<close>

lemma config_message_differs: "Erro_ao_gerar_audio \<noteq> key_nao_configurada"
  by (simp add: Erro_ao_gerar_audio_def key_nao_configurada_def)

lemma generateAudio_never_config:
  "fst (generateAudio cfg up now reqBody w) \<noteq> error_response 500 key_nao_configurada"
  by (auto simp: generateAudio_def generateAudio_catch_def Let_def error_response_def
      error_details_response_def audio_response_def config_message_differs
      split: sum.splits prod.splits)

lemma speech_to_speech_missing_key:
  "reqFile = Some inputPath \<Longrightarrow> truthy (reqBody ''voice'') \<Longrightarrow> key_missing (ELEVEN_KEY cfg) \<Longrightarrow>
   speech_to_speech cfg up now reqFile reqBody w = (error_response 500 key_nao_configurada, w)"
  by (simp add: speech_to_speech_def)

section \<open>The example deployment, evaluated\<close>

lemmas path_eval = path_join_def posix_normalize_def normalizeString_def norm_step_def
  isAbsolute_def path_segments_def path_root_def parent_dir_def ancestors_def

lemma example_cfg:
  "dirname cfg_example = ''/srv/app''"
  "ELEVEN_API_KEY cfg_example = Some ''sk_test''"
  "XI_API_KEY cfg_example = None"
  "ELEVENLABS_API_KEY cfg_example = None"
  by (simp_all add: cfg_example_def)

lemma example_client:
  "new_ElevenLabsClient cfg_example (ELEVEN_API_KEY cfg_example) = Inr (ElevenLabsClient ''sk_test'')"
  by (simp add: new_ElevenLabsClient_def example_cfg)

lemma example_body:
  "body_example ''text'' = Some (JStr ''Ola'')"
  "body_example ''voice'' = Some (JStr ''Rachel'')"
  "body_example ''projectName'' = None"
  by (simp_all add: body_example_def)

lemma example_dirs:
  "PUBLIC_DIR cfg_example = ''/srv/app/public''"
  "AUDIOS_DIR cfg_example = ''/srv/app/public/audios''"
  "UPLOADS_DIR cfg_example = ''/srv/app/uploads''"
  by (simp_all add: PUBLIC_DIR_def AUDIOS_DIR_def UPLOADS_DIR_def example_cfg path_eval)

lemma example_ancestors:
  "ancestors ''/srv/app/public'' = [''/srv'', ''/srv/app'']"
  "ancestors ''/srv/app/public/audios'' = [''/srv'', ''/srv/app'', ''/srv/app/public'']"
  "ancestors ''/srv/app/uploads'' = [''/srv'', ''/srv/app'']"
  by (simp_all add: path_eval)

lemma example_names:
  "generated_filename ''tts'' 1700000000123 ''mp3'' = ''tts-1700000000123.mp3''"
  "generated_filename ''s2s'' 1700000000123 ''mp3'' = ''s2s-1700000000123.mp3''"
  by (simp_all add: generated_filename_def Number_toString_def digit_char_def decimal.simps)

lemma example_out:
  "path_join ''/srv/app/public/audios'' ''tts-1700000000123.mp3'' = ''/srv/app/public/audios/tts-1700000000123.mp3''"
  "path_join ''/srv/app/public/audios'' ''s2s-1700000000123.mp3'' = ''/srv/app/public/audios/s2s-1700000000123.mp3''"
  "parent_dir ''/srv/app/public/audios/tts-1700000000123.mp3'' = ''/srv/app/public/audios''"
  "parent_dir ''/srv/app/public/audios/s2s-1700000000123.mp3'' = ''/srv/app/public/audios''"
  "path_join ''audios'' ''tts-1700000000123.mp3'' = ''audios/tts-1700000000123.mp3''"
  "path_join ''audios'' ''s2s-1700000000123.mp3'' = ''audios/s2s-1700000000123.mp3''"
  by (simp_all add: path_eval)

lemma example_generate_status:
  "status (fst (generateAudio cfg_example up_example 1700000000123 body_example w_example)) = 200"
  by (simp add: generateAudio_def up_example_def Let_def saveBufferToPublic_def
      status_simps console_log_def w_example_def example_body example_client
      writeFile_def example_dirs example_names example_out fs_example_def lookup_node_def)

lemma example_s2s_status:
  "status (fst (speech_to_speech cfg_example up_example 1700000000123
      (Some ''/srv/app/uploads/1700000000000-in.wav'') body_example w_example)) = 200"
  by (simp add: speech_to_speech_def up_example_def Let_def saveBufferToPublic_def
      status_simps w_example_def example_body ELEVEN_KEY_def key_missing_def example_cfg
      writeFile_def example_dirs example_names example_out fs_example_def lookup_node_def)

lemma example_locked_save:
  "saveBufferToPublic cfg_example [7, 8] (generated_filename ''s2s'' 1700000000123 ''mp3'') w_locked
     = Inr (''audios/s2s-1700000000123.mp3'', w_locked_after)"
  by (simp add: saveBufferToPublic_def Let_def writeFile_def example_dirs example_names example_out
      w_locked_def w_locked_after_def lookup_node_def)

lemma example_locked_unlink:
  "unlink (fs w_locked_after) ''/srv/app/uploads/1700000000000-in.wav'' = Inl EACCES"
  by (simp add: unlink_def w_locked_after_def lookup_node_def)

lemma example_names2:
  "generated_filename ''tts'' 1700000000124 ''mp3'' = ''tts-1700000000124.mp3''"
  by (simp add: generated_filename_def Number_toString_def digit_char_def decimal.simps)

lemma example_out2:
  "path_join ''/srv/app/public/audios'' ''tts-1700000000124.mp3'' = ''/srv/app/public/audios/tts-1700000000124.mp3''"
  "parent_dir ''/srv/app/public/audios/tts-1700000000124.mp3'' = ''/srv/app/public/audios''"
  "path_join ''audios'' ''tts-1700000000124.mp3'' = ''audios/tts-1700000000124.mp3''"
  by (simp_all add: path_eval)

lemma example_two_calls:
  "writeArtifacts cfg_example ''tts'' ''mp3'' [(1700000000123, [1]), (1700000000124, [2])] w_example
     = Inr ([''audios/tts-1700000000123.mp3'', ''audios/tts-1700000000124.mp3''], w_two)"
  by (simp add: writeArtifact_def saveBufferToPublic_def Let_def writeFile_def
      example_dirs example_names example_names2 example_out example_out2 w_example_def fs_example_def
      w_two_def lookup_node_def)

lemma example_uploaded_save:
  "saveBufferToPublic cfg_example [7, 8] (generated_filename ''s2s'' 1700000000123 ''mp3'') w_uploaded
     = Inr (''audios/s2s-1700000000123.mp3'', w_uploaded_saved)"
  by (simp add: saveBufferToPublic_def Let_def writeFile_def example_dirs example_names example_out
      w_uploaded_def w_uploaded_saved_def lookup_node_def)

lemma example_uploaded_unlink:
  "unlink (fs w_uploaded_saved) ''/srv/app/uploads/1700000000000-in.wav''
     = Inr ((fs w_uploaded_saved)\<lparr>nodes := (nodes (fs w_uploaded_saved))(''/srv/app/uploads/1700000000000-in.wav'' := None)\<rparr>)"
  by (simp add: unlink_def w_uploaded_saved_def lookup_node_def)

lemma example_traversal_path:
  "projectFolderPath cfg_example ''../../etc/passwd'' = ''/srv/app/public/______etc_passwd''"
  by (simp add: projectFolderPath_def example_dirs sanitize_def in_class_def path_eval)

lemma example_traversal_ancestors:
  "ancestors ''/srv/app/public/______etc_passwd'' = [''/srv'', ''/srv/app'', ''/srv/app/public'']"
  by (simp add: path_eval)

lemma example_traversal_run:
  "createProject cfg_example body_traversal w_example
     = (message_response (Pasta_criada ''../../etc/passwd''), w_traversal)"
  by (simp add: createProject_def body_traversal_def example_traversal_path example_traversal_ancestors
      existsSync_def lookup_node_def w_example_def fs_example_def mkdir_recursive_def w_traversal_def)

lemma example_project_path:
  "projectFolderPath cfg_example ''My Project!'' = ''/srv/app/public/My_Project_''"
  by (simp add: projectFolderPath_def example_dirs sanitize_def in_class_def path_eval)

lemma example_project_ancestors:
  "ancestors ''/srv/app/public/My_Project_'' = [''/srv'', ''/srv/app'', ''/srv/app/public'']"
  by (simp add: path_eval)

lemma example_project_run:
  "createProject cfg_example body_project w_example
     = (message_response (Pasta_criada ''My Project!''), w_project)"
  by (simp add: createProject_def body_project_def example_project_path example_project_ancestors
      existsSync_def lookup_node_def w_example_def fs_example_def mkdir_recursive_def w_project_def)

lemma example_no_key:
  "key_missing (ELEVEN_KEY cfg_no_key)"
  "new_ElevenLabsClient cfg_no_key (ELEVEN_API_KEY cfg_no_key) = Inl (UpstreamError (Some Please_pass_in_your_key))"
  by (simp_all add: cfg_no_key_def ELEVEN_KEY_def key_missing_def new_ElevenLabsClient_def)

lemma example_empty_key:
  "key_missing (ELEVEN_KEY cfg_empty_key)"
  "new_ElevenLabsClient cfg_empty_key (ELEVEN_API_KEY cfg_empty_key) = Inr (ElevenLabsClient [])"
  "PUBLIC_DIR cfg_empty_key = ''/srv/app/public''"
  "AUDIOS_DIR cfg_empty_key = ''/srv/app/public/audios''"
  "UPLOADS_DIR cfg_empty_key = ''/srv/app/uploads''"
  by (simp_all add: cfg_empty_key_def ELEVEN_KEY_def key_missing_def new_ElevenLabsClient_def
      PUBLIC_DIR_def AUDIOS_DIR_def UPLOADS_DIR_def path_eval)

lemma example_empty_key_startup:
  "startup cfg_empty_key fs_bare = Inr (fs_example, None)"
  by (simp add: startup_def example_empty_key example_ancestors fs_bare_def fs_example_def
      existsSync_def lookup_node_def mkdir_recursive_def)

section \<open>The claims\<close>

text \<open>
  C5. A \<open>generateAudio\<close> request whose body has no \<open>text\<close> field is answered with
  status 400 and a body that holds an error message, and nothing changes: no file is
  written, nothing is logged, the provider is not called.
\<close>

theorem generateAudio_missing_text:
  "reqBody ''text'' = None \<Longrightarrow>
   generateAudio cfg up now reqBody w = (error_response 400 Texto_obrigatorio, w) \<and>
   status (fst (generateAudio cfg up now reqBody w)) = 400 \<and>
   map fst (body (fst (generateAudio cfg up now reqBody w))) = [''error''] \<and>
   fs (snd (generateAudio cfg up now reqBody w)) = fs w"
  by (simp add: generateAudio_def error_response_def)

theorem generateAudio_missing_text_witness:
  "generateAudio cfg_example up_example 1700000000123 [''voice'' \<mapsto> JStr ''Rachel''] w_example
     = (error_response 400 Texto_obrigatorio, w_example)"
  using generateAudio_missing_text
    [of "[''voice'' \<mapsto> JStr ''Rachel'']" cfg_example up_example 1700000000123 w_example]
  by simp

text \<open>
  C6. Every successful response (status 200) of \<open>generateAudio\<close> and of
  \<open>speech-to-speech\<close> carries \<open>ok: true\<close> and an \<open>audioUrl\<close> of the form
  \<open>audios/<prefix>-<timestamp>.<extension>\<close>: relative to the store root, with forward
  slashes, the prefix \<open>tts\<close> or \<open>s2s\<close>, the decimal \<open>Date.now()\<close> and \<open>mp3\<close>.
\<close>

theorem audioUrl_form:
  "(status (fst (generateAudio cfg up now reqBody w)) = 200 \<longrightarrow>
      body (fst (generateAudio cfg up now reqBody w)) =
        [(''ok'', JBool True), (''audioUrl'', JStr (''audios/'' @ ''tts'' @ ''-'' @ Number_toString now @ ''.'' @ ''mp3''))]) \<and>
   (status (fst (speech_to_speech cfg up now reqFile reqBody w)) = 200 \<longrightarrow>
      body (fst (speech_to_speech cfg up now reqFile reqBody w)) =
        [(''ok'', JBool True), (''audioUrl'', JStr (''audios/'' @ ''s2s'' @ ''-'' @ Number_toString now @ ''.'' @ ''mp3''))])"
proof (intro conjI impI)
  assume "status (fst (generateAudio cfg up now reqBody w)) = 200"
  then have "fst (generateAudio cfg up now reqBody w) =
      audio_response (''audios/'' @ generated_filename ''tts'' now ''mp3'')"
    by (rule generateAudio_ok)
  then show "body (fst (generateAudio cfg up now reqBody w)) =
      [(''ok'', JBool True), (''audioUrl'', JStr (''audios/'' @ ''tts'' @ ''-'' @ Number_toString now @ ''.'' @ ''mp3''))]"
    by (simp add: audio_response_def generated_filename_def)
next
  assume "status (fst (speech_to_speech cfg up now reqFile reqBody w)) = 200"
  then have "fst (speech_to_speech cfg up now reqFile reqBody w) =
      audio_response (''audios/'' @ generated_filename ''s2s'' now ''mp3'')"
    by (rule speech_to_speech_ok)
  then show "body (fst (speech_to_speech cfg up now reqFile reqBody w)) =
      [(''ok'', JBool True), (''audioUrl'', JStr (''audios/'' @ ''s2s'' @ ''-'' @ Number_toString now @ ''.'' @ ''mp3''))]"
    by (simp add: audio_response_def generated_filename_def)
qed

theorem audioUrl_form_witness:
  "body (fst (generateAudio cfg_example up_example 1700000000123 body_example w_example)) =
     [(''ok'', JBool True), (''audioUrl'', JStr ''audios/tts-1700000000123.mp3'')] \<and>
   body (fst (speech_to_speech cfg_example up_example 1700000000123
      (Some ''/srv/app/uploads/1700000000000-in.wav'') body_example w_example)) =
     [(''ok'', JBool True), (''audioUrl'', JStr ''audios/s2s-1700000000123.mp3'')]"
proof -
  have n: "Number_toString 1700000000123 = ''1700000000123''"
    by (simp add: Number_toString_def digit_char_def decimal.simps)
  from audioUrl_form [where cfg = cfg_example and up = up_example and now = 1700000000123
      and reqBody = body_example and w = w_example
      and reqFile = "Some ''/srv/app/uploads/1700000000000-in.wav''"]
    example_generate_status example_s2s_status
  show ?thesis by (simp add: n)
qed

text \<open>
  C7. Creating the directories is idempotent: when a run over a list of paths has
  succeeded, a second run over the same list succeeds too and changes nothing; and a
  run over paths that all exist already succeeds without touching the file system.
\<close>

theorem ensureDirectories_idempotent:
  "(ensureDirectories fsys ds = Inr fsys' \<longrightarrow> ensureDirectories fsys' ds = Inr fsys') \<and>
   (list_all (existsSync fsys) ds \<longrightarrow> ensureDirectories fsys ds = Inr fsys)"
  by (simp add: ensureDirectories_present ensureDirectories_all_exist)

theorem ensureDirectories_idempotent_witness:
  "ensureDirectories fs_bare [PUBLIC_DIR cfg_example, AUDIOS_DIR cfg_example, UPLOADS_DIR cfg_example] = Inr fs_example
   \<and> ensureDirectories fs_example [PUBLIC_DIR cfg_example, AUDIOS_DIR cfg_example, UPLOADS_DIR cfg_example] = Inr fs_example"
proof -
  have first: "ensureDirectories fs_bare [PUBLIC_DIR cfg_example, AUDIOS_DIR cfg_example, UPLOADS_DIR cfg_example] = Inr fs_example"
    by (simp add: example_dirs example_ancestors fs_bare_def fs_example_def existsSync_def
        lookup_node_def mkdir_recursive_def)
  with ensureDirectories_idempotent [of fs_bare "[PUBLIC_DIR cfg_example, AUDIOS_DIR cfg_example, UPLOADS_DIR cfg_example]" fs_example]
  show ?thesis by simp
qed

text \<open>
  C3. Once the client is built and the provider has returned a stream, \<open>generateAudio\<close>
  reads the stream to its end. When the stream does not raise, the buffers collected
  are the payloads of the chunks, one per chunk, in the order they were yielded, and a
  successful response means the artifact file holds the concatenation of those
  payloads in that order. When the stream raises, the error reaches the request's
  \<open>catch\<close>: the caller gets status 500 with the body \<open>{ error, details }\<close>, where
  \<open>details\<close> is the error's message (left out when it has none), the error is logged,
  and the file system is as it was, so no artifact is written.
\<close>

theorem generateAudio_chunks:
  assumes "truthy (reqBody ''text'')"
    and "new_ElevenLabsClient cfg (ELEVEN_API_KEY cfg) = Inr c"
    and "voices_getAll up c = Inr voices"
    and "generate up c reqBody = Inr g"
  shows "(gen_raises g = None \<longrightarrow>
            drain g [] = Inr (map payload (gen_chunks g)) \<and>
            (status (fst (generateAudio cfg up now reqBody w)) = 200 \<longrightarrow>
               readFile (fs (snd (generateAudio cfg up now reqBody w)))
                 (path_join (AUDIOS_DIR cfg) (generated_filename ''tts'' now ''mp3''))
               = Some (concat (map payload (gen_chunks g))))) \<and>
         (\<forall>err. gen_raises g = Some err \<longrightarrow>
            drain g [] = Inl err \<and>
            status (fst (generateAudio cfg up now reqBody w)) = 500 \<and>
            body (fst (generateAudio cfg up now reqBody w)) =
              (''error'', JStr Erro_ao_gerar_audio) #
              (case error_message err of None \<Rightarrow> [] | Some d \<Rightarrow> [(''details'', JStr d)]) \<and>
            snd (generateAudio cfg up now reqBody w) =
              console_error ''generateAudio error'' err (console_log voices w) \<and>
            fs (snd (generateAudio cfg up now reqBody w)) = fs w)"
proof (intro conjI impI allI)
  assume "gen_raises g = None"
  then show d: "drain g [] = Inr (map payload (gen_chunks g))"
    by (simp add: drain_eq toBuffer_payload)
  assume ok: "status (fst (generateAudio cfg up now reqBody w)) = 200"
  let ?save = "saveBufferToPublic cfg (concat (map payload (gen_chunks g)))
      (generated_filename ''tts'' now ''mp3'') (console_log voices w)"
  have run: "generateAudio cfg up now reqBody w =
      (case ?save of Inl err \<Rightarrow> generateAudio_catch err (console_log voices w)
       | Inr (publicPath, w2) \<Rightarrow> (audio_response publicPath, w2))"
    using generateAudio_after_generate [OF assms] d by simp
  show "readFile (fs (snd (generateAudio cfg up now reqBody w)))
          (path_join (AUDIOS_DIR cfg) (generated_filename ''tts'' now ''mp3''))
        = Some (concat (map payload (gen_chunks g)))"
  proof (cases ?save)
    case (Inl err)
    with run ok show ?thesis by (simp add: generateAudio_catch_def status_simps)
  next
    case (Inr r)
    then obtain p w2 where "?save = Inr (p, w2)" by (cases r) simp
    with run saveBufferToPublic_read [of cfg _ _ _ p w2] show ?thesis by simp
  qed
next
  fix err
  assume r: "gen_raises g = Some err"
  then show d: "drain g [] = Inl err" by (simp add: drain_eq)
  with generateAudio_after_generate [OF assms]
  have run: "generateAudio cfg up now reqBody w =
      (error_details_response 500 Erro_ao_gerar_audio (error_message err),
       console_error ''generateAudio error'' err (console_log voices w))"
    by (simp add: generateAudio_catch_def)
  then show "status (fst (generateAudio cfg up now reqBody w)) = 500"
    by (simp add: error_details_response_def)
  from run show "body (fst (generateAudio cfg up now reqBody w)) =
      (''error'', JStr Erro_ao_gerar_audio) #
      (case error_message err of None \<Rightarrow> [] | Some d \<Rightarrow> [(''details'', JStr d)])"
    by (simp add: error_details_response_def)
  from run show "snd (generateAudio cfg up now reqBody w) =
      console_error ''generateAudio error'' err (console_log voices w)"
    by simp
  from run show "fs (snd (generateAudio cfg up now reqBody w)) = fs w"
    by (simp add: fs_console_error fs_console_log)
qed

theorem generateAudio_chunks_witness:
  "readFile (fs (snd (generateAudio cfg_example up_example 1700000000123 body_example w_example)))
       ''/srv/app/public/audios/tts-1700000000123.mp3'' = Some [1, 2, 3] \<and>
   generateAudio cfg_example up_raising 1700000000123 body_example w_example =
     (\<lparr>status = 500,
       body = [(''error'', JStr Erro_ao_gerar_audio), (''details'', JStr ''stream reset'')]\<rparr>,
      \<lparr>fs = fs_example,
       console = [Console_log (JArr []), Console_error ''generateAudio error'' (LString ''stream reset'')]\<rparr>)"
proof -
  have a: "truthy (body_example ''text'')" by (simp add: example_body)
  have b: "voices_getAll up_example (ElevenLabsClient ''sk_test'') = Inr (JArr [])"
    and c: "generate up_example (ElevenLabsClient ''sk_test'') body_example
       = Inr (Yield (BufferChunk [1, 2]) (Yield (ArrayChunk [3]) Done))"
    by (simp_all add: up_example_def)
  have b': "voices_getAll up_raising (ElevenLabsClient ''sk_test'') = Inr (JArr [])"
    and c': "generate up_raising (ElevenLabsClient ''sk_test'') body_example
       = Inr (Yield (BufferChunk [1, 2]) (Raise (UpstreamError (Some ''stream reset''))))"
    by (simp_all add: up_raising_def)
  from generateAudio_chunks [OF a example_client b c, of 1700000000123 w_example] example_generate_status
  have first: "readFile (fs (snd (generateAudio cfg_example up_example 1700000000123 body_example w_example)))
       ''/srv/app/public/audios/tts-1700000000123.mp3'' = Some [1, 2, 3]"
    by (simp add: example_dirs example_names example_out)
  from generateAudio_chunks [OF a example_client b' c', of 1700000000123 w_example]
  have "status (fst (generateAudio cfg_example up_raising 1700000000123 body_example w_example)) = 500"
    and "body (fst (generateAudio cfg_example up_raising 1700000000123 body_example w_example)) =
       [(''error'', JStr Erro_ao_gerar_audio), (''details'', JStr ''stream reset'')]"
    and "snd (generateAudio cfg_example up_raising 1700000000123 body_example w_example) =
       \<lparr>fs = fs_example,
        console = [Console_log (JArr []), Console_error ''generateAudio error'' (LString ''stream reset'')]\<rparr>"
    by (simp_all add: console_error_def console_log_def w_example_def)
  then have second: "generateAudio cfg_example up_raising 1700000000123 body_example w_example =
     (\<lparr>status = 500,
       body = [(''error'', JStr Erro_ao_gerar_audio), (''details'', JStr ''stream reset'')]\<rparr>,
      \<lparr>fs = fs_example,
       console = [Console_log (JArr []), Console_error ''generateAudio error'' (LString ''stream reset'')]\<rparr>)"
    by (cases "generateAudio cfg_example up_raising 1700000000123 body_example w_example") simp
  from first second show ?thesis by simp
qed

text \<open>
  C1, as the code has it. The file name is made of the prefix, the millisecond read from
  the clock and the extension, and of nothing else. So calls whose milliseconds are
  pairwise different (prefix and extension free of slashes, the module's directory
  absolute) return pairwise different references, one per call, and after the run
  each file holds the bytes of its own call.
\<close>

theorem writeArtifacts_distinct_timestamps:
  assumes "isAbsolute (dirname cfg)"
    and "CHR ''/'' \<notin> set categoryPrefix" and "CHR ''/'' \<notin> set extension"
    and "distinct (map fst calls)"
    and "writeArtifacts cfg categoryPrefix extension calls w = Inr (refs, w')"
  shows "length refs = length calls \<and> distinct refs \<and>
         refs = map (\<lambda>c. ''audios/'' @ generated_filename categoryPrefix (fst c) extension) calls \<and>
         list_all (\<lambda>c. readFile (fs w')
                      (AUDIOS_DIR cfg @ ''/'' @ generated_filename categoryPrefix (fst c) extension)
                    = Some (snd c)) calls"
proof -
  have cl: "clean (generated_filename categoryPrefix t extension)" for t
    using assms(2,3) by (rule generated_filename_clean)
  from writeArtifacts_frame [OF assms(5)]
  have refs: "refs = map (\<lambda>c. ''audios/'' @ generated_filename categoryPrefix (fst c) extension) calls"
    by (simp add: path_join_relative clean_audios cl)
  have inj: "inj_on (\<lambda>c. ''audios/'' @ generated_filename categoryPrefix (fst c) extension) (set calls)"
  proof (rule inj_onI)
    fix x y assume "x \<in> set calls" "y \<in> set calls"
      and "''audios/'' @ generated_filename categoryPrefix (fst x) extension
         = ''audios/'' @ generated_filename categoryPrefix (fst y) extension"
    then have "fst x = fst y" by (auto dest: generated_filename_inj)
    with \<open>x \<in> set calls\<close> \<open>y \<in> set calls\<close> assms(4) show "x = y"
      by (meson distinct_map inj_onD)
  qed
  have dc: "distinct calls" using assms(4) by (simp add: distinct_map)
  have "distinct refs" unfolding refs using dc inj by (simp add: distinct_map)
  moreover from writeArtifacts_contents [OF assms(1,2,3,5,4)]
  have "list_all (\<lambda>c. readFile (fs w')
          (AUDIOS_DIR cfg @ ''/'' @ generated_filename categoryPrefix (fst c) extension)
          = Some (snd c)) calls"
    by (simp add: out_path_form [OF assms(1,2,3)])
  ultimately show ?thesis using refs by simp
qed

theorem writeArtifacts_distinct_timestamps_witness:
  "writeArtifacts cfg_example ''tts'' ''mp3'' [(1700000000123, [1]), (1700000000124, [2])] w_example
     = Inr ([''audios/tts-1700000000123.mp3'', ''audios/tts-1700000000124.mp3''], w_two) \<and>
   distinct [''audios/tts-1700000000123.mp3'', ''audios/tts-1700000000124.mp3''] \<and>
   readFile (fs w_two) ''/srv/app/public/audios/tts-1700000000123.mp3'' = Some [1] \<and>
   readFile (fs w_two) ''/srv/app/public/audios/tts-1700000000124.mp3'' = Some [2]"
proof -
  have a: "isAbsolute (dirname cfg_example)" by (simp add: isAbsolute_def example_cfg)
  have d: "distinct (map fst [(1700000000123 :: int, [1 :: 8 word]), (1700000000124, [2])])" by simp
  from writeArtifacts_distinct_timestamps [OF a _ _ d example_two_calls] example_two_calls
  show ?thesis by (simp add: example_dirs example_names example_names2)
qed

text \<open>
  C1, as the specification states it, fails: two calls with the same prefix in the same
  millisecond get the same file name, the references are equal, and the second call
  overwrites the file of the first.
\<close>

theorem writeArtifact_same_tick_collision:
  "writeArtifacts cfg_example ''tts'' ''mp3'' [(1700000000123, [1]), (1700000000123, [2])] w_example
     = Inr ([''audios/tts-1700000000123.mp3'', ''audios/tts-1700000000123.mp3''], w_collided) \<and>
   \<not> distinct [''audios/tts-1700000000123.mp3'', ''audios/tts-1700000000123.mp3''] \<and>
   readFile (fs w_collided) ''/srv/app/public/audios/tts-1700000000123.mp3'' = Some [2]"
  by (simp add: writeArtifact_def saveBufferToPublic_def Let_def writeFile_def
      example_dirs example_names example_out w_example_def fs_example_def w_collided_def
      lookup_node_def readFile_def)


text \<open>
  C9, as the code has it. After the artifact is saved, \<open>speech-to-speech\<close> removes the
  upload at \<open>req.file.path\<close>. Whatever \<open>unlink\<close> does, the request succeeds and the
  console is as it was before the request: when \<open>unlink\<close> succeeds the upload is
  gone, when it fails the failure is dropped in an empty \<open>catch\<close>, without a log line.
\<close>

theorem temporary_upload_unlink_swallowed:
  assumes "truthy (reqBody ''voice'')" and "\<not> key_missing (ELEVEN_KEY cfg)"
    and "sts_post up (the (ELEVEN_KEY cfg)) (the (reqBody ''voice'')) (lookup_node (fs w) inputPath) = Inr outBuffer"
    and "saveBufferToPublic cfg outBuffer (generated_filename ''s2s'' now ''mp3'') w = Inr (publicPath, wSaved)"
  shows "speech_to_speech cfg up now (Some inputPath) reqBody w
           = (audio_response publicPath, unlink_quietly inputPath wSaved) \<and>
         console (unlink_quietly inputPath wSaved) = console w \<and>
         (\<forall>fsys'. unlink (fs wSaved) inputPath = Inr fsys' \<longrightarrow>
            fs (unlink_quietly inputPath wSaved) = fsys' \<and> lookup_node fsys' inputPath = None) \<and>
         (\<forall>e. unlink (fs wSaved) inputPath = Inl e \<longrightarrow> unlink_quietly inputPath wSaved = wSaved)"
proof (intro conjI allI impI)
  show "speech_to_speech cfg up now (Some inputPath) reqBody w
           = (audio_response publicPath, unlink_quietly inputPath wSaved)"
    using assms by (simp add: speech_to_speech_def)
  from saveBufferToPublic_Inr [OF assms(4)] have "console wSaved = console w" by simp
  then show "console (unlink_quietly inputPath wSaved) = console w"
    by (simp add: unlink_quietly_def split: sum.splits)
next
  fix fsys' assume u: "unlink (fs wSaved) inputPath = Inr fsys'"
  then show "fs (unlink_quietly inputPath wSaved) = fsys'" by (simp add: unlink_quietly_def)
  from unlink_Inr [OF u] show "lookup_node fsys' inputPath = None"
    by (simp add: lookup_node_def)
next
  fix e assume "unlink (fs wSaved) inputPath = Inl e"
  then show "unlink_quietly inputPath wSaved = wSaved" by (simp add: unlink_quietly_def)
qed

theorem temporary_upload_unlink_swallowed_witness:
  "speech_to_speech cfg_example up_example 1700000000123 (Some ''/srv/app/uploads/1700000000000-in.wav'')
      body_example w_locked
     = (audio_response ''audios/s2s-1700000000123.mp3'', w_locked_after) \<and>
   console w_locked_after = console w_locked \<and>
   fst (speech_to_speech cfg_example up_example 1700000000123 (Some ''/srv/app/uploads/1700000000000-in.wav'')
      body_example w_uploaded) = audio_response ''audios/s2s-1700000000123.mp3'' \<and>
   lookup_node (fs (snd (speech_to_speech cfg_example up_example 1700000000123
      (Some ''/srv/app/uploads/1700000000000-in.wav'') body_example w_uploaded)))
      ''/srv/app/uploads/1700000000000-in.wav'' = None"
proof -
  have a: "truthy (body_example ''voice'')" by (simp add: example_body)
  have b: "\<not> key_missing (ELEVEN_KEY cfg_example)"
    by (simp add: ELEVEN_KEY_def key_missing_def example_cfg)
  have c: "sts_post up_example (the (ELEVEN_KEY cfg_example)) (the (body_example ''voice''))
       (lookup_node (fs w) ''/srv/app/uploads/1700000000000-in.wav'') = Inr [7, 8]" for w
    by (simp add: up_example_def)
  from temporary_upload_unlink_swallowed
      [where reqBody = body_example and cfg = cfg_example and up = up_example and w = w_locked
        and inputPath = "''/srv/app/uploads/1700000000000-in.wav''" and outBuffer = "[7, 8]"
        and now = 1700000000123 and publicPath = "''audios/s2s-1700000000123.mp3''"
        and wSaved = w_locked_after, OF a b c example_locked_save]
    example_locked_unlink
  have locked: "speech_to_speech cfg_example up_example 1700000000123
        (Some ''/srv/app/uploads/1700000000000-in.wav'') body_example w_locked
       = (audio_response ''audios/s2s-1700000000123.mp3'', w_locked_after) \<and>
     console w_locked_after = console w_locked"
    by auto
  from temporary_upload_unlink_swallowed
      [where reqBody = body_example and cfg = cfg_example and up = up_example and w = w_uploaded
        and inputPath = "''/srv/app/uploads/1700000000000-in.wav''" and outBuffer = "[7, 8]"
        and now = 1700000000123 and publicPath = "''audios/s2s-1700000000123.mp3''"
        and wSaved = w_uploaded_saved, OF a b c example_uploaded_save]
    example_uploaded_unlink
  have removed: "fst (speech_to_speech cfg_example up_example 1700000000123
        (Some ''/srv/app/uploads/1700000000000-in.wav'') body_example w_uploaded)
       = audio_response ''audios/s2s-1700000000123.mp3'' \<and>
     lookup_node (fs (snd (speech_to_speech cfg_example up_example 1700000000123
        (Some ''/srv/app/uploads/1700000000000-in.wav'') body_example w_uploaded)))
        ''/srv/app/uploads/1700000000000-in.wav'' = None"
    by auto
  from locked removed show ?thesis by simp
qed

text \<open>
  C9, as the specification states it, fails where it says the failure is logged: with
  an upload the system refuses to remove, \<open>unlink\<close> fails, the request succeeds, and
  the console is empty before and after.
\<close>

theorem unlink_failure_not_logged:
  "speech_to_speech cfg_example up_example 1700000000123 (Some ''/srv/app/uploads/1700000000000-in.wav'')
      body_example w_locked
     = (audio_response ''audios/s2s-1700000000123.mp3'', w_locked_after) \<and>
   unlink (fs w_locked_after) ''/srv/app/uploads/1700000000000-in.wav'' = Inl EACCES \<and>
   console w_locked = [] \<and> console w_locked_after = []"
  by (simp add: speech_to_speech_def example_body ELEVEN_KEY_def key_missing_def example_cfg
      up_example_def example_locked_save example_locked_unlink unlink_quietly_def)
     (simp add: w_locked_def w_locked_after_def)

text \<open>
  C4. For a request whose \<open>projectName\<close> is a non-empty string: the directory name is
  the project name with every character outside \<open>[A-Za-z0-9_-]\<close> replaced by an
  underscore, and the directory is that name under the public directory (the module's
  directory being absolute); when the directory exists already the answer is the
  message \<open>Projeto ja existe.\<close> and nothing is created or changed; after a request that
  answered \<open>Pasta do projeto ... criada com sucesso!\<close> the directory exists and the same
  request again gets the already-exists answer and changes nothing; and the two
  answers are different.
\<close>

theorem createProject_named_subdirectory:
  assumes "reqBody ''projectName'' = Some (JStr name)" and "name \<noteq> []"
  shows "sanitize name = map (\<lambda>c. if c \<in> set class_chars then c else CHR ''_'') name \<and>
         (isAbsolute (dirname cfg) \<longrightarrow>
            projectFolderPath cfg name = PUBLIC_DIR cfg @ ''/'' @ sanitize name) \<and>
         (existsSync (fs w) (projectFolderPath cfg name) \<longrightarrow>
            createProject cfg reqBody w = (message_response Projeto_ja_existe, w)) \<and>
         (\<forall>wCreated. createProject cfg reqBody w = (message_response (Pasta_criada name), wCreated) \<longrightarrow>
            lookup_node (fs wCreated) (projectFolderPath cfg name) = Some Dir \<and>
            createProject cfg reqBody wCreated = (message_response Projeto_ja_existe, wCreated)) \<and>
         message_response Projeto_ja_existe \<noteq> message_response (Pasta_criada name)"
proof -
  note cs = createProject_string [where reqBody = reqBody and name = name, OF assms]
  show ?thesis
  proof (intro conjI impI allI)
  show "sanitize name = map (\<lambda>c. if c \<in> set class_chars then c else CHR ''_'') name"
    by (rule sanitize_spec)
  show "message_response Projeto_ja_existe \<noteq> message_response (Pasta_criada name)"
    by (simp add: message_response_def messages_differ)
next
  assume "isAbsolute (dirname cfg)"
  then show "projectFolderPath cfg name = PUBLIC_DIR cfg @ ''/'' @ sanitize name"
    using assms(2) by (rule projectFolderPath_child)
next
  assume "existsSync (fs w) (projectFolderPath cfg name)"
  then show "createProject cfg reqBody w = (message_response Projeto_ja_existe, w)"
    by (simp add: cs)
next
  fix wCreated
  assume run: "createProject cfg reqBody w = (message_response (Pasta_criada name), wCreated)"
  let ?pf = "projectFolderPath cfg name"
  have nex: "\<not> existsSync (fs w) ?pf"
  proof
    assume "existsSync (fs w) ?pf"
    with run show False
      by (simp add: cs message_response_def messages_differ)
  qed
  obtain r fsys' where m: "mkdir_recursive (fs w) ?pf = (r, fsys')"
    by (cases "mkdir_recursive (fs w) ?pf")
  have r: "r = None"
  proof (cases r)
    case (Some e)
    with run nex m show ?thesis
      by (simp add: cs createProject_catch_def
          message_response_def error_response_def)
  qed simp
  with run nex m have w': "wCreated = w\<lparr>fs := fsys'\<rparr>"
    by (simp add: cs)
  from m r have "lookup_node fsys' ?pf = Some Dir"
    by (simp add: mkdir_recursive_def mkdir_chain_last)
  with w' show "lookup_node (fs wCreated) ?pf = Some Dir" by simp
  then have "existsSync (fs wCreated) ?pf" by (simp add: existsSync_def)
  then show "createProject cfg reqBody wCreated = (message_response Projeto_ja_existe, wCreated)"
    by (simp add: cs)
  qed
qed

theorem createProject_named_subdirectory_witness:
  "sanitize ''My Project!'' = ''My_Project_'' \<and>
   projectFolderPath cfg_example ''My Project!'' = ''/srv/app/public/My_Project_'' \<and>
   createProject cfg_example body_project w_example
     = (message_response (Pasta_criada ''My Project!''), w_project) \<and>
   lookup_node (fs w_project) ''/srv/app/public/My_Project_'' = Some Dir \<and>
   createProject cfg_example body_project w_project = (message_response Projeto_ja_existe, w_project)"
proof -
  have a: "body_project ''projectName'' = Some (JStr ''My Project!'')" by (simp add: body_project_def)
  have b: "''My Project!'' \<noteq> []" by simp
  have s: "sanitize ''My Project!'' = ''My_Project_''" by (simp add: sanitize_def in_class_def)
  from createProject_named_subdirectory
      [where reqBody = body_project and name = "''My Project!''" and cfg = cfg_example
        and w = w_example, OF a b]
    example_project_run
  have "lookup_node (fs w_project) (projectFolderPath cfg_example ''My Project!'') = Some Dir"
    and "createProject cfg_example body_project w_project = (message_response Projeto_ja_existe, w_project)"
    by blast+
  with s example_project_run show ?thesis by (simp add: example_project_path)
qed


text \<open>
  C10. Whatever the project name, its sanitised form holds only characters of
  \<open>[A-Za-z0-9_-]\<close>, so neither a slash nor a dot; for a non-empty name (the module's
  directory being absolute) the project folder is the public directory followed by a
  slash and the sanitised name, and its parent is the public directory; and whatever
  the request body, a path whose entry \<open>createProject\<close> changes becomes a directory and
  is the project folder of a non-empty string name or one of the directories above it.
\<close>

theorem createProject_no_traversal:
  "set (sanitize projectName) \<subseteq> set class_chars \<and>
   CHR ''/'' \<notin> set (sanitize projectName) \<and> CHR ''.'' \<notin> set (sanitize projectName) \<and>
   (isAbsolute (dirname cfg) \<and> projectName \<noteq> [] \<longrightarrow>
      projectFolderPath cfg projectName = PUBLIC_DIR cfg @ ''/'' @ sanitize projectName \<and>
      parent_dir (projectFolderPath cfg projectName) = PUBLIC_DIR cfg) \<and>
   (\<forall>q. lookup_node (fs (snd (createProject cfg reqBody w))) q \<noteq> lookup_node (fs w) q \<longrightarrow>
      lookup_node (fs (snd (createProject cfg reqBody w))) q = Some Dir \<and>
      (\<exists>name. reqBody ''projectName'' = Some (JStr name) \<and> name \<noteq> [] \<and>
         q \<in> set (ancestors (projectFolderPath cfg name) @ [projectFolderPath cfg name])))"
  using sanitize_chars [of projectName] sanitize_no_separator(1,2) [of projectName]
    projectFolderPath_child [of cfg projectName] createProject_frame [of cfg reqBody w]
  by blast

theorem createProject_no_traversal_witness:
  "projectFolderPath cfg_example ''../../etc/passwd'' = ''/srv/app/public/______etc_passwd'' \<and>
   parent_dir ''/srv/app/public/______etc_passwd'' = ''/srv/app/public'' \<and>
   createProject cfg_example body_traversal w_example
     = (message_response (Pasta_criada ''../../etc/passwd''), w_traversal) \<and>
   (\<exists>name. body_traversal ''projectName'' = Some (JStr name) \<and> name \<noteq> [] \<and>
      ''/srv/app/public/______etc_passwd''
        \<in> set (ancestors (projectFolderPath cfg_example name) @ [projectFolderPath cfg_example name]))"
proof -
  have a: "isAbsolute (dirname cfg_example)" by (simp add: isAbsolute_def example_cfg)
  have changed: "lookup_node (fs (snd (createProject cfg_example body_traversal w_example)))
        ''/srv/app/public/______etc_passwd''
      \<noteq> lookup_node (fs w_example) ''/srv/app/public/______etc_passwd''"
    by (simp add: example_traversal_run) (simp add: w_traversal_def w_example_def fs_example_def lookup_node_def)
  from createProject_no_traversal [of "''../../etc/passwd''" cfg_example body_traversal w_example] a changed
  have "projectFolderPath cfg_example ''../../etc/passwd'' = PUBLIC_DIR cfg_example @ ''/'' @ sanitize ''../../etc/passwd''"
    and "parent_dir (projectFolderPath cfg_example ''../../etc/passwd'') = PUBLIC_DIR cfg_example"
    and "\<exists>name. body_traversal ''projectName'' = Some (JStr name) \<and> name \<noteq> [] \<and>
      ''/srv/app/public/______etc_passwd''
        \<in> set (ancestors (projectFolderPath cfg_example name) @ [projectFolderPath cfg_example name])"
    by blast+
  then show ?thesis
    by (simp add: example_traversal_path example_dirs example_traversal_run)
qed


text \<open>
  C2 at \<open>generateAudio\<close>. The route builds a new client on every request, calls the
  provider with it, and only then tests \<open>!client\<close>; a client that was built is an
  object and never falsy, so for no configuration, provider, request or world does
  the route answer with the message \<open>ElevenLabs API key nao configurada\<close>. Take the
  deployment whose \<open>ELEVEN_API_KEY\<close> is the empty string: the credential is missing by
  the module's own test, the process starts (no client is built at the top level), and
  \<open>speech-to-speech\<close> answers a request with a file and a voice with the configuration
  error and changes nothing. \<open>generateAudio\<close> there builds a client with the empty
  key and calls the provider; when the provider refuses with an error, the answer is
  the generic 500 \<open>Erro ao gerar audio\<close> with that error's message. With no variable
  set at all the constructor itself throws and the same generic 500 carries the SDK's
  message; the provider is not called and nothing is written.
\<close>

theorem generateAudio_missing_key_not_reported:
  "fst (generateAudio cfg up now reqBody w) \<noteq> error_response 500 key_nao_configurada \<and>
   key_missing (ELEVEN_KEY cfg_empty_key) \<and>
   startup cfg_empty_key fs_bare = Inr (fs_example, None) \<and>
   speech_to_speech cfg_empty_key up now (Some inputPath) body_example w
     = (\<lparr>status = 500, body = [(''error'', JStr key_nao_configurada)]\<rparr>, w) \<and>
   generateAudio cfg_empty_key (up_refusing err) 1700000000123 body_example w_example
     = (\<lparr>status = 500,
         body = (''error'', JStr Erro_ao_gerar_audio) #
                (case error_message err of None \<Rightarrow> [] | Some d \<Rightarrow> [(''details'', JStr d)])\<rparr>,
        console_error ''generateAudio error'' err w_example) \<and>
   key_missing (ELEVEN_KEY cfg_no_key) \<and>
   generateAudio cfg_no_key up now body_example w
     = (\<lparr>status = 500,
         body = [(''error'', JStr Erro_ao_gerar_audio), (''details'', JStr Please_pass_in_your_key)]\<rparr>,
        console_error ''generateAudio error'' (UpstreamError (Some Please_pass_in_your_key)) w)"
proof (intro conjI)
  show "fst (generateAudio cfg up now reqBody w) \<noteq> error_response 500 key_nao_configurada"
    by (rule generateAudio_never_config)
  show "key_missing (ELEVEN_KEY cfg_empty_key)" "key_missing (ELEVEN_KEY cfg_no_key)"
    by (simp_all add: example_empty_key example_no_key)
  show "startup cfg_empty_key fs_bare = Inr (fs_example, None)"
    by (rule example_empty_key_startup)
  show "speech_to_speech cfg_empty_key up now (Some inputPath) body_example w
     = (\<lparr>status = 500, body = [(''error'', JStr key_nao_configurada)]\<rparr>, w)"
    by (simp add: speech_to_speech_def example_body example_empty_key error_response_def)
  show "generateAudio cfg_empty_key (up_refusing err) 1700000000123 body_example w_example
     = (\<lparr>status = 500,
         body = (''error'', JStr Erro_ao_gerar_audio) #
                (case error_message err of None \<Rightarrow> [] | Some d \<Rightarrow> [(''details'', JStr d)])\<rparr>,
        console_error ''generateAudio error'' err w_example)"
    by (simp add: generateAudio_def example_body example_empty_key up_refusing_def
        generateAudio_catch_def error_details_response_def)
  show "generateAudio cfg_no_key up now body_example w
     = (\<lparr>status = 500,
         body = [(''error'', JStr Erro_ao_gerar_audio), (''details'', JStr Please_pass_in_your_key)]\<rparr>,
        console_error ''generateAudio error'' (UpstreamError (Some Please_pass_in_your_key)) w)"
    by (simp add: generateAudio_def example_body example_no_key
        generateAudio_catch_def error_details_response_def)
qed

end
